theory Spec2Isabelle
  imports Complex_Main "HOL-Library.AList"
begin

section \<open>Python values, exceptions and the operations the handlers use\<close>

text \<open>
  A request body after \<^verbatim>\<open>json.loads\<close>. A number is kept as the text Python prints for
  it: the handlers never compute with a number of the body, they only pass it on or
  print it. An object is the loaded \<^verbatim>\<open>dict\<close>, as its items in order.
\<close>

datatype json =
    JNull
  | JBool bool
  | JNum string
  | JStr string
  | JList "json list"
  | JObj "(string \<times> json) list"

datatype py_exception =
    JSONDecodeError
  | KeyError json
  | IndexError
  | TypeError
  | ValueError
  | AttributeError

text \<open>
  The errors of the web framework that the handlers raise: \<^verbatim>\<open>HTTPMissingParam\<close> and
  \<^verbatim>\<open>HTTPInvalidParam\<close> are its 400 errors for a parameter, \<^verbatim>\<open>HTTPBadRequest\<close> carries a
  title and a description, \<^verbatim>\<open>HTTPNotFound\<close> (404) a description, \<^verbatim>\<open>HTTPConflict\<close> (409)
  a title and a description.
\<close>

datatype http_error =
    HTTPMissingParam string
  | HTTPInvalidParam string string
  | HTTPBadRequest string string
  | HTTPNotFound string
  | HTTPConflict string string

text \<open>What a statement raises: an error of the framework or a Python exception.\<close>

datatype raised = Http http_error | Py py_exception

fun starts_with :: "string \<Rightarrow> string \<Rightarrow> bool" where
  "starts_with [] s = True"
| "starts_with (k # ks) [] = False"
| "starts_with (k # ks) (c # s) = (k = c \<and> starts_with ks s)"

fun py_substring :: "string \<Rightarrow> string \<Rightarrow> bool" where
  "py_substring k [] = (k = [])"
| "py_substring k (c # s) = (starts_with k (c # s) \<or> py_substring k s)"

text \<open>\<^verbatim>\<open>k in v\<close> for a string \<open>k\<close>: a key of a dict, an element of a list, a substring of
  a string; any other value is not iterable.\<close>

fun py_in :: "string \<Rightarrow> json \<Rightarrow> raised + bool" where
  "py_in k (JObj kvs) = Inr (k \<in> set (map fst kvs))"
| "py_in k (JList xs) = Inr (JStr k \<in> set xs)"
| "py_in k (JStr s) = Inr (py_substring k s)"
| "py_in k v = Inl (Py TypeError)"

text \<open>\<^verbatim>\<open>v[k]\<close> for a string \<open>k\<close>: only a dict takes a string as subscript.\<close>

fun py_getitem :: "json \<Rightarrow> string \<Rightarrow> raised + json" where
  "py_getitem (JObj kvs) k =
     (case map_of kvs k of None \<Rightarrow> Inl (Py (KeyError (JStr k))) | Some v \<Rightarrow> Inr v)"
| "py_getitem v k = Inl (Py TypeError)"

text \<open>\<^verbatim>\<open>str\<close> of an integer: its decimal digits.\<close>

definition digit_char :: "nat \<Rightarrow> char" where
  "digit_char d = ''0123456789'' ! d"

fun str_nat :: "nat \<Rightarrow> string" where
  "str_nat n = (if n < 10 then [digit_char n] else str_nat (n div 10) @ [digit_char (n mod 10)])"

declare str_nat.simps [simp del]

definition str_int :: "int \<Rightarrow> string" where
  "str_int i = (if i < 0 then CHR ''-'' # str_nat (nat (- i)) else str_nat (nat i))"

text \<open>\<^verbatim>\<open>v[i]\<close> for the index \<open>i\<close>, which is 0 or 1 in the handlers. A JSON object has only
  string keys, so an integer subscript of a dict is a missing key.\<close>

fun py_index :: "json \<Rightarrow> nat \<Rightarrow> raised + json" where
  "py_index (JList xs) i = (if i < length xs then Inr (xs ! i) else Inl (Py IndexError))"
| "py_index (JStr s) i = (if i < length s then Inr (JStr [s ! i]) else Inl (Py IndexError))"
| "py_index (JObj kvs) i = Inl (Py (KeyError (JNum (str_nat i))))"
| "py_index v i = Inl (Py TypeError)"

fun py_len :: "json \<Rightarrow> raised + nat" where
  "py_len (JList xs) = Inr (length xs)"
| "py_len (JStr s) = Inr (length s)"
| "py_len (JObj kvs) = Inr (length (remdups (map fst kvs)))"
| "py_len v = Inl (Py TypeError)"

fun isinstance_list :: "json \<Rightarrow> bool" where
  "isinstance_list (JList xs) = True"
| "isinstance_list v = False"

text \<open>
  \<^verbatim>\<open>repr\<close> of a string: single quotes, unless the string has a single quote and no
  double quote; backslash, the quote in use, newline, carriage return and tab are
  escaped. (Other control characters and non-ASCII text are not modelled; none of the
  keys and messages below has any.)
\<close>

definition escape_char :: "char \<Rightarrow> char \<Rightarrow> string" where
  "escape_char q c =
     (if c = CHR 0x5C then [CHR 0x5C, CHR 0x5C]
      else if c = q then [CHR 0x5C, q]
      else if c = CHR 0x0A then [CHR 0x5C, CHR ''n'']
      else if c = CHR 0x0D then [CHR 0x5C, CHR ''r'']
      else if c = CHR 0x09 then [CHR 0x5C, CHR ''t'']
      else [c])"

definition repr_str :: "string \<Rightarrow> string" where
  "repr_str s =
     (let q = (if CHR 0x27 \<in> set s \<and> CHR 0x22 \<notin> set s then CHR 0x22 else CHR 0x27)
      in q # concat (map (escape_char q) s) @ [q])"

fun join :: "string \<Rightarrow> string list \<Rightarrow> string" where
  "join sep [] = []"
| "join sep [x] = x"
| "join sep (x # y # ys) = x @ sep @ join sep (y # ys)"

fun py_repr :: "json \<Rightarrow> string" where
  "py_repr JNull = ''None''"
| "py_repr (JBool b) = (if b then ''True'' else ''False'')"
| "py_repr (JNum n) = n"
| "py_repr (JStr s) = repr_str s"
| "py_repr (JList xs) = ''['' @ join '', '' (map py_repr xs) @ '']''"
| "py_repr (JObj kvs) =
     ''{'' @ join '', '' (map (\<lambda>kv. repr_str (fst kv) @ '': '' @ py_repr (snd kv)) kvs) @ ''}''"

text \<open>\<^verbatim>\<open>str(v)\<close>, which is what \<^verbatim>\<open>"{}".format(v)\<close> inserts: a string as it is, any other
  value as its \<^verbatim>\<open>repr\<close>.\<close>

fun py_str :: "json \<Rightarrow> string" where
  "py_str (JStr s) = s"
| "py_str v = py_repr v"

text \<open>\<^verbatim>\<open>str\<close> of an internal id as \<^verbatim>\<open>get_entity_id\<close> returns it: \<^verbatim>\<open>None\<close> or an integer.\<close>

fun str_id :: "int option \<Rightarrow> string" where
  "str_id None = ''None''"
| "str_id (Some i) = str_int i"

text \<open>\<^verbatim>\<open>str\<close> of a \<^verbatim>\<open>KeyError\<close> is the \<^verbatim>\<open>repr\<close> of the missing key, quotes included.\<close>

fun str_KeyError :: "json \<Rightarrow> string" where
  "str_KeyError k = py_repr k"

section \<open>The collaborators of the endpoints\<close>

text \<open>
  The dataset object, the search server and the dataset DAO are code outside this
  subsystem; the handlers only call them. They are taken as parameters: a dataset
  resolves a reference to an internal id (\<^verbatim>\<open>None\<close> when it is unknown) and an id to the
  entity; the search server answers nearest-neighbour and distance queries; the DAO
  returns a DTO or \<^verbatim>\<open>None\<close> with an error, builds the dataset object, and returns the
  search index or \<^verbatim>\<open>None\<close> with an error when it is not built. The DTO is modelled by
  the dict its \<^verbatim>\<open>to_dict\<close> gives, an error by its \<^verbatim>\<open>str\<close>.
\<close>

record dataset =
  get_entity_id :: "json \<Rightarrow> int option"
  get_entity :: "int \<Rightarrow> json"

record search_server =
  similarity_by_id :: "int \<Rightarrow> int \<Rightarrow> int \<Rightarrow> (int \<times> real) list"
  similarity_by_embedding :: "json \<Rightarrow> int \<Rightarrow> int \<Rightarrow> (int \<times> real) list"
  distance_between_entities :: "int \<Rightarrow> int \<Rightarrow> real"

type_synonym dataset_dto = json

record dataset_dao =
  get_dataset_by_id :: "int \<Rightarrow> dataset_dto option \<times> string"
  build_dataset_object :: "dataset_dto \<Rightarrow> dataset"
  get_search_index :: "dataset_dto \<Rightarrow> search_server option \<times> string"

section \<open>The responses\<close>

record similar_entities =
  se_dataset :: json
  se_entity_value :: json
  se_entity_type :: string
  se_limit :: nat
  se_search_k :: int
  se_response :: "(json \<times> real) list"

datatype http_response =
    Similar_200 similar_entities
  | Distance_200 real
  | Message_400 string

section \<open>DistanceTriples.on_post\<close>

text \<open>
  The \<^verbatim>\<open>try\<close> block of the handler. The body is \<open>None\<close> when reading or decoding the
  stream fails. The check of the parameter is the source's
  \<^verbatim>\<open>not isinstance(body["distance"], list) and len(body["distance"]) != 2\<close>: the length is
  only looked at when the value is not a list.
\<close>

definition distance_invalid_msg :: string where
  "distance_invalid_msg = ''The param 'distance' must contain a list of twoentities.''"

definition distance_try :: "json option \<Rightarrow> raised + (json \<times> json)" where
  "distance_try stream =
     (case stream of
        None \<Rightarrow> Inl (Py JSONDecodeError)
      | Some body \<Rightarrow>
         (case py_in ''distance'' body of
            Inl e \<Rightarrow> Inl e
          | Inr present \<Rightarrow>
             if \<not> present then Inl (Http (HTTPMissingParam ''distance''))
             else
              (case py_getitem body ''distance'' of
                 Inl e \<Rightarrow> Inl e
               | Inr d \<Rightarrow>
                  (case (if \<not> isinstance_list d
                         then (case py_len d of Inl e \<Rightarrow> Inl e | Inr n \<Rightarrow> Inr (n \<noteq> 2))
                         else Inr False) of
                     Inl e \<Rightarrow> Inl e
                   | Inr invalid \<Rightarrow>
                      if invalid then Inl (Http (HTTPInvalidParam distance_invalid_msg ''distance''))
                      else
                       (case py_index d 0 of
                          Inl e \<Rightarrow> Inl e
                        | Inr entity_x \<Rightarrow>
                           (case py_index d 1 of
                              Inl e \<Rightarrow> Inl e
                            | Inr entity_y \<Rightarrow> Inr (entity_x, entity_y)))))))"

definition bad_body_title :: string where
  "bad_body_title = ''HTTP Body request not loaded correctly''"

definition bad_body_msg :: string where
  "bad_body_msg =
     ''The body couldn't be correctly loaded from HTTP request. '' @
     ''Please, read the documentation carefully and try again. '' @
     ''Extra info: '' @ ''Couldn't decode the input stream (body).''"

text \<open>The \<^verbatim>\<open>except (JSONDecodeError, KeyError, ValueError, TypeError)\<close> clause: these four
  become a \<^verbatim>\<open>HTTPBadRequest\<close>; anything else raised in the block goes on to the caller.\<close>

fun distance_except :: "raised \<Rightarrow> raised" where
  "distance_except (Py JSONDecodeError) = Http (HTTPBadRequest bad_body_title bad_body_msg)"
| "distance_except (Py (KeyError k)) = Http (HTTPBadRequest bad_body_title bad_body_msg)"
| "distance_except (Py ValueError) = Http (HTTPBadRequest bad_body_title bad_body_msg)"
| "distance_except (Py TypeError) = Http (HTTPBadRequest bad_body_title bad_body_msg)"
| "distance_except r = r"

definition distance_body :: "json option \<Rightarrow> raised + (json \<times> json)" where
  "distance_body stream =
     (case distance_try stream of Inl r \<Rightarrow> Inl (distance_except r) | Inr xy \<Rightarrow> Inr xy)"

definition not_ready_title :: string where
  "not_ready_title = ''Dataset not ready perform search operation''"

definition distance_not_found :: "int option \<Rightarrow> json \<Rightarrow> int option \<Rightarrow> json \<Rightarrow> string" where
  "distance_not_found id_x entity_x id_y entity_y =
     ''The '' @ str_id id_x @ '' id from entity '' @ py_str entity_x @
     '' or the '' @ str_id id_y @ '' id from '' @ py_str entity_y @
     '' entity can't be found on the dataset''"

definition distance_on_post ::
  "dataset_dao \<Rightarrow> json option \<Rightarrow> int \<Rightarrow> raised + http_response" where
  "distance_on_post dao stream dataset_id =
     (case distance_body stream of
        Inl r \<Rightarrow> Inl r
      | Inr (entity_x, entity_y) \<Rightarrow>
         (case get_dataset_by_id dao dataset_id of
            (None, err) \<Rightarrow> Inl (Http (HTTPNotFound err))
          | (Some dataset_dto, err) \<Rightarrow>
             (let ds = build_dataset_object dao dataset_dto in
              case get_search_index dao dataset_dto of
                (None, err) \<Rightarrow> Inl (Http (HTTPConflict not_ready_title err))
              | (Some search_server, err) \<Rightarrow>
                 (let id_x = get_entity_id ds entity_x;
                      id_y = get_entity_id ds entity_y
                  in if id_x = None \<or> id_y = None
                     then Inl (Http (HTTPNotFound
                            (distance_not_found id_x entity_x id_y entity_y)))
                     else Inr (Distance_200
                            (distance_between_entities search_server (the id_x) (the id_y)))))))"

section \<open>PredictSimilarEntitiesResource\<close>

text \<open>
  A query parameter of the request, as the framework's \<^verbatim>\<open>get_param_as_int\<close> sees it:
  absent (the call returns \<^verbatim>\<open>None\<close>), present but not an integer (the call raises
  \<^verbatim>\<open>HTTPInvalidParam\<close>), or an integer.
\<close>

datatype query_param = Absent | Not_int | Int_param int

record request =
  limit_param :: query_param
  search_k_param :: query_param

fun get_param_as_int :: "query_param \<Rightarrow> string \<Rightarrow> raised + int option" where
  "get_param_as_int Absent name = Inr None"
| "get_param_as_int Not_int name =
     Inl (Http (HTTPInvalidParam ''The value must be an integer.'' name))"
| "get_param_as_int (Int_param n) name = Inr (Some n)"

definition entity_not_found :: "json \<Rightarrow> string" where
  "entity_not_found entity =
     ''The '' @ py_str entity @ '' entity can't be found inside dataset.''"

text \<open>The comprehension \<^verbatim>\<open>[{"entity": dataset.get_entity(e_id), "distance": dist}
  for e_id, dist in ...]\<close>: one item for every pair the server returned, in its order.\<close>

definition with_entities :: "dataset \<Rightarrow> (int \<times> real) list \<Rightarrow> (json \<times> real) list" where
  "with_entities ds sim = map (\<lambda>(e_id, dist). (get_entity ds e_id, dist)) sim"

definition on_get ::
  "dataset_dao \<Rightarrow> request \<Rightarrow> int \<Rightarrow> json \<Rightarrow> bool \<Rightarrow> raised + http_response" where
  "on_get dao req dataset_id entity embedding =
     (case get_dataset_by_id dao dataset_id of
        (None, err) \<Rightarrow> Inl (Http (HTTPNotFound err))
      | (Some dataset_dto, err) \<Rightarrow>
         (let ds = build_dataset_object dao dataset_dto in
          case get_search_index dao dataset_dto of
            (None, err) \<Rightarrow> Inl (Http (HTTPConflict not_ready_title err))
          | (Some search_server, err) \<Rightarrow>
             (case get_param_as_int (limit_param req) ''limit'' of
                Inl r \<Rightarrow> Inl r
              | Inr limit_opt \<Rightarrow>
                 (let limit = (case limit_opt of None \<Rightarrow> 10 | Some l \<Rightarrow> l);
                      limit = limit + 1
                  in case get_param_as_int (search_k_param req) ''search_k'' of
                       Inl r \<Rightarrow> Inl r
                     | Inr search_k_opt \<Rightarrow>
                        (let search_k = (case search_k_opt of None \<Rightarrow> - 1 | Some k \<Rightarrow> k)
                         in if embedding
                            then
                             (let similar =
                                    with_entities ds
                                      (similarity_by_embedding search_server entity limit search_k)
                              in Inr (Similar_200
                                   \<lparr>se_dataset = dataset_dto,
                                    se_entity_value = entity,
                                    se_entity_type = ''embedding'',
                                    se_limit = length similar,
                                    se_search_k = search_k,
                                    se_response = similar\<rparr>))
                            else
                             (case get_entity_id ds entity of
                                None \<Rightarrow> Inl (Http (HTTPNotFound (entity_not_found entity)))
                              | Some entity_id \<Rightarrow>
                                 (let similar =
                                        with_entities ds
                                          (similarity_by_id search_server entity_id limit search_k)
                                  in Inr (Similar_200
                                       \<lparr>se_dataset = dataset_dto,
                                        se_entity_value = get_entity ds entity_id,
                                        se_entity_type = ''uri'',
                                        se_limit = length similar,
                                        se_search_k = search_k,
                                        se_response = similar\<rparr>))))))))"

text \<open>\<^verbatim>\<open>str.lower\<close>, on the ASCII letters (no other character lowercases to a letter of
  \<^verbatim>\<open>uri\<close> or \<^verbatim>\<open>embedding\<close>).\<close>

definition lower_char :: "char \<Rightarrow> char" where
  "lower_char c =
     (case map_of (zip ''ABCDEFGHIJKLMNOPQRSTUVWXYZ'' ''abcdefghijklmnopqrstuvwxyz'') c of
        None \<Rightarrow> c | Some l \<Rightarrow> l)"

text \<open>\<^verbatim>\<open>v.lower()\<close>: only a string has the method.\<close>

fun py_lower :: "json \<Rightarrow> raised + string" where
  "py_lower (JStr s) = Inr (map lower_char s)"
| "py_lower v = Inl (Py AttributeError)"

definition type_not_recognized :: "json \<Rightarrow> json \<Rightarrow> string" where
  "type_not_recognized ty entity =
     ''The type '' @ [CHR 0x27] @ py_str ty @ [CHR 0x27] @ '' of the entity '' @ py_str entity @
     '' is not recognized. Please, take a look to the documentation.''"

definition no_entity_msg :: string where
  "no_entity_msg =
     ''Must contain a entity object in json. Please, take a look to the documentation.''"

text \<open>The condition \<^verbatim>\<open>'entity' in body and 'type' in body['entity']\<close>: the second test
  is evaluated only when the first holds.\<close>

definition has_entity_type :: "json \<Rightarrow> raised + bool" where
  "has_entity_type body =
     (case py_in ''entity'' body of
        Inl r \<Rightarrow> Inl r
      | Inr has_entity \<Rightarrow>
         if \<not> has_entity then Inr False
         else (case py_getitem body ''entity'' of
                 Inl r \<Rightarrow> Inl r
               | Inr e \<Rightarrow> py_in ''type'' e))"

text \<open>\<^verbatim>\<open>body['entity'][key]\<close>.\<close>

definition entity_field :: "json \<Rightarrow> string \<Rightarrow> raised + json" where
  "entity_field body key =
     (case py_getitem body ''entity'' of Inl r \<Rightarrow> Inl r | Inr e \<Rightarrow> py_getitem e key)"

text \<open>
  The handler reads the body (\<open>None\<close> when it does not decode: nothing catches the
  exception here), tests the type against \<^verbatim>\<open>uri\<close> and then against \<^verbatim>\<open>embedding\<close>, and
  calls \<open>on_get\<close> with the value; any other type, or a body without an entity and a
  type, is answered with the status 400 and a message.
\<close>

definition on_post ::
  "dataset_dao \<Rightarrow> request \<Rightarrow> json option \<Rightarrow> int \<Rightarrow> raised + http_response" where
  "on_post dao req stream dataset_id =
     (case stream of
        None \<Rightarrow> Inl (Py JSONDecodeError)
      | Some body \<Rightarrow>
         (case has_entity_type body of
            Inl r \<Rightarrow> Inl r
          | Inr ok \<Rightarrow>
             if ok then
              (case entity_field body ''type'' of
                 Inl r \<Rightarrow> Inl r
               | Inr ty \<Rightarrow>
                  (case py_lower ty of
                     Inl r \<Rightarrow> Inl r
                   | Inr low \<Rightarrow>
                      if low = ''uri'' then
                        (case entity_field body ''value'' of
                           Inl r \<Rightarrow> Inl r
                         | Inr v \<Rightarrow> on_get dao req dataset_id v False)
                      else if low = ''embedding'' then
                        (case entity_field body ''value'' of
                           Inl r \<Rightarrow> Inl r
                         | Inr v \<Rightarrow> on_get dao req dataset_id v True)
                      else
                        (case py_getitem body ''entity'' of
                           Inl r \<Rightarrow> Inl r
                         | Inr e \<Rightarrow> Inr (Message_400 (type_not_recognized ty e)))))
             else Inr (Message_400 no_entity_msg)))"

section \<open>The suggestion engine\<close>

text \<open>
  Elasticsearch is outside the repository; \<open>EntityDAO\<close> calls its client. The model keeps
  what those calls read and write. A document is addressed by index, document type and
  id; the DAO always uses its own index (\<^verbatim>\<open>"entities"\<close>) and its own type (the dataset
  type it was built with: the autocomplete ``is not divided by datasets, instead it is
  divided by dataset type''), so the documents of the index are kept as a list of
  \<open>((type, id), source)\<close>. A source has the fields the DAO writes, each present or not.
\<close>

type_synonym dataset_id = int

record es_source =
  src_entity :: "string option"
  src_description :: "(string \<times> string) list option"
  src_label :: "(string \<times> string) list option"
  src_alt_label :: "(string \<times> string list) list option"
  src_label_suggest :: "string list option"
  src_datasets :: "dataset_id list option"

type_synonym doc_key = "string \<times> string"

type_synonym doc_store = "(doc_key \<times> es_source) list"

record es_index =
  idx_body :: json
  idx_docs :: doc_store

type_synonym es_state = "string \<rightharpoonup> es_index"

datatype es_error = NotFoundError | RequestError

record entity_dao =
  dao_index :: string
  dao_type :: string
  dao_dataset_id :: dataset_id

subsection \<open>EntityDAO.generate_index\<close>

text \<open>Deleting an index that does not exist raises \<^verbatim>\<open>NotFoundError\<close>; creating one that
  exists raises \<^verbatim>\<open>RequestError\<close>; a new index has no document.\<close>

definition indices_exists :: "es_state \<Rightarrow> string \<Rightarrow> bool" where
  "indices_exists es name = (es name \<noteq> None)"

definition indices_delete :: "es_state \<Rightarrow> string \<Rightarrow> es_error + es_state" where
  "indices_delete es name =
     (if es name = None then Inl NotFoundError else Inr (es(name := None)))"

definition indices_create :: "es_state \<Rightarrow> string \<Rightarrow> json \<Rightarrow> es_error + es_state" where
  "indices_create es name body =
     (if es name \<noteq> None then Inl RequestError
      else Inr (es(name \<mapsto> \<lparr>idx_body = body, idx_docs = []\<rparr>)))"

definition suggest_field :: json where
  "suggest_field =
     JObj [(''type'', JStr ''completion''),
           (''analyzer'', JStr ''my_custom_analyzer''),
           (''search_analyzer'', JStr ''standard''),
           (''preserve_separators'', JBool False),
           (''preserve_position_increments'', JBool False)]"

definition index_body :: "string \<Rightarrow> json" where
  "index_body ty =
     JObj [(''mappings'',
             JObj [(ty,
               JObj [(''properties'',
                       JObj [(''entity'', JObj [(''type'', JStr ''string'')]),
                             (''description'', JObj [(''type'', JStr ''object'')]),
                             (''label'', JObj [(''type'', JStr ''object'')]),
                             (''alt_label'', JObj [(''type'', JStr ''object'')]),
                             (''label_suggest'', suggest_field)]),
                     (''dynamic'', JBool True)])]),
           (''settings'',
             JObj [(''analysis'',
               JObj [(''analyzer'',
                       JObj [(''my_custom_analyzer'',
                         JObj [(''type'', JStr ''custom''),
                               (''tokenizer'', JStr ''standard''),
                               (''filter'', JList [JStr ''lowercase'', JStr ''my_ascii_folding''])])]),
                     (''filter'',
                       JObj [(''my_ascii_folding'',
                         JObj [(''type'', JStr ''asciifolding''),
                               (''preserve_original'', JBool True)])])])])]"

text \<open>The \<^verbatim>\<open>try\<close> around the deletion passes on \<^verbatim>\<open>NotFoundError\<close> alone; then the index
  is created.\<close>

definition generate_index :: "entity_dao \<Rightarrow> string \<Rightarrow> es_state \<Rightarrow> es_error + es_state" where
  "generate_index dao indexName es =
     (let body = index_body (dao_type dao) in
      case (case indices_delete es indexName of
              Inr es' \<Rightarrow> Inr es'
            | Inl NotFoundError \<Rightarrow> Inr es
            | Inl err \<Rightarrow> Inl err) of
        Inl err \<Rightarrow> Inl err
      | Inr es' \<Rightarrow> indices_create es' indexName body)"

subsection \<open>EntityDAO.insert_entity\<close>

text \<open>The entity dict that \<open>insert_entity\<close> receives; a dict is its items in order.\<close>

record entity_dict =
  ent_entity :: string
  ent_description :: "(string \<times> string) list"
  ent_label :: "(string \<times> string) list"
  ent_alt_label :: "(string \<times> string list) list"

record full_doc =
  fd_entity :: string
  fd_description :: "(string \<times> string) list"
  fd_label :: "(string \<times> string) list"
  fd_alt_label :: "(string \<times> string list) list"
  fd_label_suggest :: "string list"

text \<open>
  An update with a partial document and \<^verbatim>\<open>doc_as_upsert\<close>: when there is no document
  under the key, the partial document becomes the document; otherwise it is merged into
  the stored one, an object key by key, any other value replaced. A field the partial
  document does not have (\<^verbatim>\<open>datasets\<close>) stays as it is.
\<close>

definition merge_obj :: "(string \<times> 'v) list option \<Rightarrow> (string \<times> 'v) list \<Rightarrow> (string \<times> 'v) list" where
  "merge_obj old new = (case old of None \<Rightarrow> new | Some kvs \<Rightarrow> AList.merge kvs new)"

definition merge_doc :: "es_source \<Rightarrow> full_doc \<Rightarrow> es_source" where
  "merge_doc old doc =
     old\<lparr>src_entity := Some (fd_entity doc),
         src_description := Some (merge_obj (src_description old) (fd_description doc)),
         src_label := Some (merge_obj (src_label old) (fd_label doc)),
         src_alt_label := Some (merge_obj (src_alt_label old) (fd_alt_label doc)),
         src_label_suggest := Some (fd_label_suggest doc)\<rparr>"

definition new_doc :: "full_doc \<Rightarrow> es_source" where
  "new_doc doc =
     \<lparr>src_entity = Some (fd_entity doc),
      src_description = Some (fd_description doc),
      src_label = Some (fd_label doc),
      src_alt_label = Some (fd_alt_label doc),
      src_label_suggest = Some (fd_label_suggest doc),
      src_datasets = None\<rparr>"

definition update_doc_as_upsert :: "doc_store \<Rightarrow> doc_key \<Rightarrow> full_doc \<Rightarrow> es_error + doc_store" where
  "update_doc_as_upsert docs key doc =
     (case map_of docs key of
        None \<Rightarrow> Inr (docs @ [(key, new_doc doc)])
      | Some old \<Rightarrow> Inr (AList.update key (merge_doc old doc) docs))"

text \<open>The inline script of the second update, on the source of the document.\<close>

definition dataset_script :: "dataset_id \<Rightarrow> es_source \<Rightarrow> es_source" where
  "dataset_script dataset src =
     (case src_datasets src of
        None \<Rightarrow> src\<lparr>src_datasets := Some [dataset]\<rparr>
      | Some ds \<Rightarrow>
         if \<not> dataset \<in> set ds then src\<lparr>src_datasets := Some (ds @ [dataset])\<rparr>
         else src)"

text \<open>An update with a script needs the document: without it the engine answers
  \<^verbatim>\<open>NotFoundError\<close> (document missing).\<close>

definition update_script :: "doc_store \<Rightarrow> doc_key \<Rightarrow> (es_source \<Rightarrow> es_source) \<Rightarrow> es_error + doc_store" where
  "update_script docs key script =
     (case map_of docs key of
        None \<Rightarrow> Inl NotFoundError
      | Some old \<Rightarrow> Inr (AList.update key (script old) docs))"

definition insert_entity :: "entity_dao \<Rightarrow> entity_dict \<Rightarrow> doc_store \<Rightarrow> es_error + doc_store" where
  "insert_entity dao entity docs =
     (let alt_labels = map snd (ent_alt_label entity);
          suggestions = map snd (ent_label entity) @ concat alt_labels;
          full_doc = \<lparr>fd_entity = ent_entity entity,
                      fd_description = ent_description entity,
                      fd_label = ent_label entity,
                      fd_alt_label = ent_alt_label entity,
                      fd_label_suggest = suggestions\<rparr>;
          entity_uuid = ent_entity entity
      in case update_doc_as_upsert docs (dao_type dao, entity_uuid) full_doc of
           Inl err \<Rightarrow> Inl err
         | Inr docs' \<Rightarrow>
             update_script docs' (dao_type dao, entity_uuid)
               (dataset_script (dao_dataset_id dao)))"

text \<open>Upserting one entity through several DAOs in turn, stopping at the first error.\<close>

fun insert_through :: "entity_dao list \<Rightarrow> entity_dict \<Rightarrow> doc_store \<Rightarrow> es_error + doc_store" where
  "insert_through [] entity docs = Inr docs"
| "insert_through (dao # daos) entity docs =
     (case insert_entity dao entity docs of
        Inl err \<Rightarrow> Inl err
      | Inr docs' \<Rightarrow> insert_through daos entity docs')"

text \<open>The documents stored for an entity reference, under any type, and the
  \<^verbatim>\<open>datasets\<close> of the document under a key.\<close>

definition docs_of_entity :: "doc_store \<Rightarrow> string \<Rightarrow> (doc_key \<times> es_source) list" where
  "docs_of_entity docs ref = filter (\<lambda>kv. snd (fst kv) = ref) docs"

definition docs_at :: "doc_store \<Rightarrow> doc_key \<Rightarrow> (doc_key \<times> es_source) list" where
  "docs_at docs key = filter (\<lambda>kv. fst kv = key) docs"

definition datasets_at :: "doc_store \<Rightarrow> doc_key \<Rightarrow> dataset_id list" where
  "datasets_at docs key =
     (case map_of docs key of
        None \<Rightarrow> []
      | Some src \<Rightarrow> (case src_datasets src of None \<Rightarrow> [] | Some ds \<Rightarrow> ds))"

text \<open>What the engine keeps true of an index and the script keeps true of
  \<^verbatim>\<open>datasets\<close>: one document under a key, no dataset twice in a document.\<close>

definition wf_store :: "doc_store \<Rightarrow> bool" where
  "wf_store docs =
     (distinct (map fst docs) \<and>
      list_all (\<lambda>kv. case src_datasets (snd kv) of None \<Rightarrow> True | Some ds \<Rightarrow> distinct ds) docs)"

subsection \<open>EntityDAO.suggest_entity\<close>

text \<open>
  The answer of the engine to the completion request, as the method reads it: the key
  \<^verbatim>\<open>entities\<close> with a list of entries, an entry with its \<^verbatim>\<open>options\<close>, an option with its
  \<^verbatim>\<open>text\<close> and the \<^verbatim>\<open>_source\<close> of the document. Every key is present or not.
\<close>

record es_option =
  opt_text :: "string option"
  opt_source :: "es_source option"

record es_entry =
  entry_options :: "es_option list option"

record suggest_response =
  resp_entities :: "es_entry list option"

text \<open>\<open>EntityDTO\<close> reads four keys of the source, in this order; its \<^verbatim>\<open>to_dict\<close> (of the base
  class, outside the repository's files here) is taken to give the four fields back.\<close>

record entity_dto =
  dto_entity :: string
  dto_label :: "(string \<times> string) list"
  dto_description :: "(string \<times> string) list"
  dto_alt_label :: "(string \<times> string list) list"

definition EntityDTO :: "es_source \<Rightarrow> raised + entity_dto" where
  "EntityDTO entity_dict =
     (case src_entity entity_dict of
        None \<Rightarrow> Inl (Py (KeyError (JStr ''entity'')))
      | Some e \<Rightarrow>
     (case src_label entity_dict of
        None \<Rightarrow> Inl (Py (KeyError (JStr ''label'')))
      | Some l \<Rightarrow>
     (case src_description entity_dict of
        None \<Rightarrow> Inl (Py (KeyError (JStr ''description'')))
      | Some d \<Rightarrow>
     (case src_alt_label entity_dict of
        None \<Rightarrow> Inl (Py (KeyError (JStr ''alt_label'')))
      | Some a \<Rightarrow>
          Inr \<lparr>dto_entity = e, dto_label = l, dto_description = d, dto_alt_label = a\<rparr>))))"

record suggestion =
  sg_entity :: entity_dto
  sg_text :: string

text \<open>The body of the inner \<^verbatim>\<open>try\<close>: \<open>None\<close> when the dataset is not in \<^verbatim>\<open>datasets\<close>, the
  item to append otherwise.\<close>

definition option_try :: "dataset_id \<Rightarrow> es_option \<Rightarrow> raised + suggestion option" where
  "option_try dataset entity =
     (case opt_source entity of
        None \<Rightarrow> Inl (Py (KeyError (JStr ''_source'')))
      | Some src \<Rightarrow>
     (case src_datasets src of
        None \<Rightarrow> Inl (Py (KeyError (JStr ''datasets'')))
      | Some ds \<Rightarrow>
         if dataset \<in> set ds then
          (case EntityDTO src of
             Inl r \<Rightarrow> Inl r
           | Inr es_entity \<Rightarrow>
              (case opt_text entity of
                 None \<Rightarrow> Inl (Py (KeyError (JStr ''text'')))
               | Some t \<Rightarrow> Inr (Some \<lparr>sg_entity = es_entity, sg_text = t\<rparr>)))
         else Inr None))"

text \<open>The inner \<^verbatim>\<open>except KeyError\<close>: the error is raised again when its \<^verbatim>\<open>str\<close> is not
  \<^verbatim>\<open>"datasets"\<close>, and the option is skipped otherwise.\<close>

definition option_step :: "dataset_id \<Rightarrow> es_option \<Rightarrow> raised + suggestion option" where
  "option_step dataset entity =
     (case option_try dataset entity of
        Inl (Py (KeyError invalid_key)) \<Rightarrow>
          if str_KeyError invalid_key \<noteq> ''datasets'' then Inl (Py (KeyError invalid_key))
          else Inr None
      | other \<Rightarrow> other)"

text \<open>The \<^verbatim>\<open>for\<close> loop: the list \<^verbatim>\<open>entities\<close> so far, and what ended the loop early.\<close>

fun options_loop ::
  "dataset_id \<Rightarrow> es_option list \<Rightarrow> suggestion list \<Rightarrow> suggestion list \<times> raised option" where
  "options_loop dataset [] entities = (entities, None)"
| "options_loop dataset (entity # rest) entities =
     (case option_step dataset entity of
        Inl r \<Rightarrow> (entities, Some r)
      | Inr None \<Rightarrow> options_loop dataset rest entities
      | Inr (Some item) \<Rightarrow> options_loop dataset rest (entities @ [item]))"

text \<open>The outer \<^verbatim>\<open>try\<close>: \<^verbatim>\<open>resp['entities'][0]['options']\<close>, then the loop.\<close>

definition suggest_try :: "dataset_id \<Rightarrow> suggest_response \<Rightarrow> suggestion list \<times> raised option" where
  "suggest_try dataset resp =
     (case resp_entities resp of
        None \<Rightarrow> ([], Some (Py (KeyError (JStr ''entities''))))
      | Some [] \<Rightarrow> ([], Some (Py IndexError))
      | Some (first # others) \<Rightarrow>
         (case entry_options first of
            None \<Rightarrow> ([], Some (Py (KeyError (JStr ''options''))))
          | Some opts \<Rightarrow> options_loop dataset opts []))"

text \<open>The outer \<^verbatim>\<open>except KeyError\<close> empties the list when the \<^verbatim>\<open>str\<close> of the error is
  \<^verbatim>\<open>"entities"\<close>; after it the list is returned. Any other exception goes on to the
  caller. The engine is a parameter: the answer it gives for an index and a text.\<close>

definition suggest_entity ::
  "entity_dao \<Rightarrow> (string \<Rightarrow> string \<Rightarrow> suggest_response) \<Rightarrow> string \<Rightarrow> raised + suggestion list" where
  "suggest_entity dao es_suggest input_string =
     (let resp = es_suggest (dao_index dao) input_string in
      case suggest_try (dao_dataset_id dao) resp of
        (entities, None) \<Rightarrow> Inr entities
      | (entities, Some (Py (KeyError invalid_key))) \<Rightarrow>
          Inr (if str_KeyError invalid_key = ''entities'' then [] else entities)
      | (entities, Some r) \<Rightarrow> Inl r)"

text \<open>The options the method iterates over, when the answer has them.\<close>

definition candidates :: "suggest_response \<Rightarrow> es_option list" where
  "candidates resp =
     (case resp_entities resp of
        Some (first # others) \<Rightarrow> (case entry_options first of Some opts \<Rightarrow> opts | None \<Rightarrow> [])
      | _ \<Rightarrow> [])"

section \<open>Example collaborators\<close>

text \<open>A dataset \<open>1\<close> with the entities \<^verbatim>\<open>Q1\<close>, \<^verbatim>\<open>Q2\<close>, \<^verbatim>\<open>Q3\<close> (ids 1, 2, 3), ready to be
  searched; the server returns at most as many neighbours as it is asked for.\<close>

definition ex_dataset :: dataset where
  "ex_dataset =
     \<lparr>get_entity_id = (\<lambda>e. if e = JStr ''Q1'' then Some 1 else if e = JStr ''Q2'' then Some 2
                             else if e = JStr ''Q3'' then Some 3 else None),
      get_entity = (\<lambda>i. if i = 1 then JStr ''Q1'' else if i = 2 then JStr ''Q2''
                          else if i = 3 then JStr ''Q3'' else JNull)\<rparr>"

definition ex_server :: search_server where
  "ex_server =
     \<lparr>similarity_by_id = (\<lambda>i k search_k. take (nat k) [(1, 0), (2, 0.4), (3, 0.9)]),
      similarity_by_embedding = (\<lambda>v k search_k. take (nat k) [(2, 0.1), (1, 0.3)]),
      distance_between_entities = (\<lambda>x y. if x = y then 0 else 0.4)\<rparr>"

definition ex_dto :: dataset_dto where
  "ex_dto = JObj [(''id'', JNum ''1'')]"

definition ex_dao :: dataset_dao where
  "ex_dao =
     \<lparr>get_dataset_by_id = (\<lambda>d. if d = 1 then (Some ex_dto, []) else (None, ''not found'')),
      build_dataset_object = (\<lambda>dto. ex_dataset),
      get_search_index = (\<lambda>dto. (Some ex_server, []))\<rparr>"

definition ex_request :: request where
  "ex_request = \<lparr>limit_param = Int_param 2, search_k_param = Absent\<rparr>"

text \<open>The list under \<^verbatim>\<open>response\<close> of a 200 answer to a similarity request.\<close>

definition similar_response :: "raised + http_response \<Rightarrow> (json \<times> real) list" where
  "similar_response res = (case res of Inr (Similar_200 r) \<Rightarrow> se_response r | _ \<Rightarrow> [])"

text \<open>A server that answers with what it was asked: the distances of its answer are
  the number of neighbours requested and the search effort.\<close>

definition echo_server :: search_server where
  "echo_server =
     \<lparr>similarity_by_id = (\<lambda>i k search_k. [(i, real_of_int k), (i, real_of_int search_k)]),
      similarity_by_embedding = (\<lambda>v k search_k. [(1, real_of_int k), (2, real_of_int search_k)]),
      distance_between_entities = (\<lambda>x y. 0)\<rparr>"

definition echo_dao :: dataset_dao where
  "echo_dao =
     \<lparr>get_dataset_by_id = (\<lambda>d. (Some ex_dto, [])),
      build_dataset_object = (\<lambda>dto. ex_dataset),
      get_search_index = (\<lambda>dto. (Some echo_server, []))\<rparr>"

section \<open>Notions the properties are stated with\<close>

text \<open>The document that \<open>insert_entity\<close> builds from an entity: its fields and the
  suggestions, the values of \<^verbatim>\<open>label\<close> followed by those of \<^verbatim>\<open>alt_label\<close>.\<close>

definition full_doc_of :: "entity_dict \<Rightarrow> full_doc" where
  "full_doc_of entity =
     \<lparr>fd_entity = ent_entity entity,
      fd_description = ent_description entity,
      fd_label = ent_label entity,
      fd_alt_label = ent_alt_label entity,
      fd_label_suggest = map snd (ent_label entity) @ concat (map snd (ent_alt_label entity))\<rparr>"

text \<open>What the script makes of the \<^verbatim>\<open>datasets\<close> of a document.\<close>

definition add_dataset :: "dataset_id \<Rightarrow> dataset_id list \<Rightarrow> dataset_id list" where
  "add_dataset d ds = (if d \<in> set ds then ds else ds @ [d])"

text \<open>The documents after a run of upserts that did not fail.\<close>

definition docs_after :: "es_error + doc_store \<Rightarrow> doc_store" where
  "docs_after res = (case res of Inr docs \<Rightarrow> docs | Inl err \<Rightarrow> [])"

text \<open>
  An option of the answer, read as data: whether its source has \<^verbatim>\<open>datasets\<close>, whether a
  dataset is in them, and the item the method makes of the option when the source has
  the four fields of the DTO and the option has its \<^verbatim>\<open>text\<close>.
\<close>

definition suggestion_of :: "es_option \<Rightarrow> suggestion option" where
  "suggestion_of opt =
     (case opt_source opt of
        None \<Rightarrow> None
      | Some src \<Rightarrow>
         (case (src_entity src, src_label src, src_description src, src_alt_label src,
                opt_text opt) of
            (Some e, Some l, Some d, Some a, Some t) \<Rightarrow>
              Some \<lparr>sg_entity = \<lparr>dto_entity = e, dto_label = l, dto_description = d,
                                  dto_alt_label = a\<rparr>,
                    sg_text = t\<rparr>
          | _ \<Rightarrow> None))"

definition has_datasets :: "es_option \<Rightarrow> bool" where
  "has_datasets opt =
     (case opt_source opt of
        None \<Rightarrow> False
      | Some src \<Rightarrow> src_datasets src \<noteq> None)"

definition in_dataset :: "dataset_id \<Rightarrow> es_option \<Rightarrow> bool" where
  "in_dataset dataset opt =
     (case opt_source opt of
        None \<Rightarrow> False
      | Some src \<Rightarrow> (case src_datasets src of None \<Rightarrow> False | Some ds \<Rightarrow> dataset \<in> set ds))"

section \<open>Example documents and answers of the engine\<close>

text \<open>An entity, two DAOs of the dataset type \<open>0\<close> for the datasets 1 and 2, and a DAO
  of the dataset type \<open>1\<close> for the dataset 2; an index that holds the entity already.\<close>

definition ex_entity :: entity_dict where
  "ex_entity =
     \<lparr>ent_entity = ''Q1'',
      ent_description = [(''en'', ''capital of France'')],
      ent_label = [(''en'', ''Paris'')],
      ent_alt_label = [(''en'', [''City of Light'', ''Paname''])]\<rparr>"

definition ex_dao_a :: entity_dao where
  "ex_dao_a = \<lparr>dao_index = ''entities'', dao_type = ''0'', dao_dataset_id = 1\<rparr>"

definition ex_dao_b :: entity_dao where
  "ex_dao_b = \<lparr>dao_index = ''entities'', dao_type = ''0'', dao_dataset_id = 2\<rparr>"

definition ex_dao_c :: entity_dao where
  "ex_dao_c = \<lparr>dao_index = ''entities'', dao_type = ''1'', dao_dataset_id = 2\<rparr>"

definition ex_old_index :: es_index where
  "ex_old_index =
     \<lparr>idx_body = JObj [], idx_docs = [((''0'', ''Q1''), new_doc (full_doc_of ex_entity))]\<rparr>"

text \<open>
  An engine with five answers: for \<^verbatim>\<open>Par\<close>, four options of which the third has no
  \<^verbatim>\<open>datasets\<close>; for \<^verbatim>\<open>Pa\<close>, the same options without the third; for \<^verbatim>\<open>Ly\<close>, five
  options of which the fourth has no \<^verbatim>\<open>text\<close>; for \<^verbatim>\<open>Zz\<close>, an entry without options;
  for any other text, an answer without the key \<^verbatim>\<open>entities\<close>.
\<close>

definition ex_source :: "string \<Rightarrow> string \<Rightarrow> dataset_id list option \<Rightarrow> es_source" where
  "ex_source ref name ds =
     \<lparr>src_entity = Some ref,
      src_description = Some [],
      src_label = Some [(''en'', name)],
      src_alt_label = Some [],
      src_label_suggest = Some [name],
      src_datasets = ds\<rparr>"

definition ex_option :: "string \<Rightarrow> string \<Rightarrow> dataset_id list option \<Rightarrow> es_option" where
  "ex_option ref name ds = \<lparr>opt_text = Some name, opt_source = Some (ex_source ref name ds)\<rparr>"

definition ex_suggestion :: "string \<Rightarrow> string \<Rightarrow> suggestion" where
  "ex_suggestion ref name =
     \<lparr>sg_entity = \<lparr>dto_entity = ref, dto_label = [(''en'', name)], dto_description = [],
                    dto_alt_label = []\<rparr>,
      sg_text = name\<rparr>"

definition ex_engine :: "string \<Rightarrow> string \<Rightarrow> suggest_response" where
  "ex_engine index text =
     (if text = ''Par'' then
        \<lparr>resp_entities = Some [\<lparr>entry_options = Some
           [ex_option ''Q1'' ''Paris'' (Some [1, 2]),
            ex_option ''Q2'' ''Parma'' (Some [2]),
            ex_option ''Q3'' ''Paros'' None,
            ex_option ''Q4'' ''Parla'' (Some [1])]\<rparr>]\<rparr>
      else if text = ''Pa'' then
        \<lparr>resp_entities = Some [\<lparr>entry_options = Some
           [ex_option ''Q1'' ''Paris'' (Some [1, 2]),
            ex_option ''Q2'' ''Parma'' (Some [2]),
            ex_option ''Q4'' ''Parla'' (Some [1])]\<rparr>]\<rparr>
      else if text = ''Ly'' then
        \<lparr>resp_entities = Some [\<lparr>entry_options = Some
           [ex_option ''Q5'' ''Lyon'' (Some [1]),
            ex_option ''Q8'' ''Lyme'' (Some [2]),
            ex_option ''Q9'' ''Lynn'' (Some [3, 1]),
            \<lparr>opt_text = None, opt_source = Some (ex_source ''Q6'' ''Lyss'' (Some [1]))\<rparr>,
            ex_option ''Q7'' ''Lydd'' (Some [1])]\<rparr>]\<rparr>
      else if text = ''Zz'' then
        \<lparr>resp_entities = Some [\<lparr>entry_options = Some []\<rparr>]\<rparr>
      else \<lparr>resp_entities = None\<rparr>)"

section \<open>Properties of the distance endpoint\<close>

lemma digit_char_in: "d < 10 \<Longrightarrow> digit_char d \<in> set ''0123456789''"
  unfolding digit_char_def by (intro nth_mem) simp

lemma str_nat_digits: "set (str_nat n) \<subseteq> set ''0123456789''"
proof -
  define D where "D = set ''0123456789''"
  have digit: "digit_char d \<in> D" if "d < 10" for d
    unfolding D_def using that by (rule digit_char_in)
  have "set (str_nat n) \<subseteq> D"
  proof (induction n rule: str_nat.induct)
    case (1 n)
    show ?case
    proof (cases "n < 10")
      case True
      then show ?thesis by (subst str_nat.simps) (simp add: digit)
    next
      case False
      with 1 have "set (str_nat (n div 10)) \<subseteq> D" by simp
      moreover have "digit_char (n mod 10) \<in> D" by (rule digit) simp
      ultimately show ?thesis using False by (subst str_nat.simps) simp
    qed
  qed
  then show ?thesis by (simp only: D_def)
qed

lemma str_int_not_None: "str_int i \<noteq> ''None''"
proof
  assume eq: "str_int i = ''None''"
  show False
  proof (cases "i < 0")
    case True
    with eq show False by (simp add: str_int_def)
  next
    case False
    with eq have "str_nat (nat i) = ''None''" by (simp add: str_int_def)
    then have "CHR ''N'' \<in> set (str_nat (nat i))" by simp
    with str_nat_digits [of "nat i"] show False by auto
  qed
qed

lemma str_id_None_iff: "str_id x = ''None'' \<longleftrightarrow> x = None"
  using str_int_not_None by (cases x) auto

text \<open>
  C2. The claim: a \<^verbatim>\<open>distance\<close> value that is not a list of exactly two elements fails
  with an invalid-request error before any reference is resolved. The handler's test
  joins its two conditions with \<^verbatim>\<open>and\<close>, so it never looks at the length of a list: a
  list of three references passes, its first two are resolved and their distance is
  answered with 200; a list of one reference ends in an uncaught \<^verbatim>\<open>IndexError\<close>; a
  string of two characters passes as two references.
\<close>

theorem distance_arity_not_checked:
  "distance_body (Some (JObj [(''distance'', JList [JStr ''Q1'', JStr ''Q2'', JStr ''Q3''])])) =
     Inr (JStr ''Q1'', JStr ''Q2'') \<and>
   distance_on_post ex_dao
     (Some (JObj [(''distance'', JList [JStr ''Q1'', JStr ''Q2'', JStr ''Q3''])])) 1 =
     Inr (Distance_200 0.4) \<and>
   distance_on_post ex_dao (Some (JObj [(''distance'', JList [JStr ''Q1''])])) 1 =
     Inl (Py IndexError) \<and>
   distance_body (Some (JObj [(''distance'', JStr ''ab'')])) = Inr (JStr ''a'', JStr ''b'')"
  by (simp add: distance_on_post_def distance_body_def distance_try_def ex_dao_def
      ex_dataset_def ex_server_def)

text \<open>
  C5. A distance request over a ready dataset in which one or both references do not
  resolve fails with \<^verbatim>\<open>HTTPNotFound\<close>; its description names both references, each after
  the id it resolved to, and the id reads \<^verbatim>\<open>None\<close> exactly for a reference that did not
  resolve.
\<close>

theorem distance_unresolved_reference:
  assumes "distance_body stream = Inr (entity_x, entity_y)"
      and "get_dataset_by_id dao dataset_id = (Some dto, err1)"
      and "get_search_index dao dto = (Some srv, err2)"
      and "get_entity_id (build_dataset_object dao dto) entity_x = None \<or>
           get_entity_id (build_dataset_object dao dto) entity_y = None"
  shows "(let id_x = get_entity_id (build_dataset_object dao dto) entity_x;
              id_y = get_entity_id (build_dataset_object dao dto) entity_y
          in distance_on_post dao stream dataset_id =
               Inl (Http (HTTPNotFound
                 (''The '' @ str_id id_x @ '' id from entity '' @ py_str entity_x @
                  '' or the '' @ str_id id_y @ '' id from '' @ py_str entity_y @
                  '' entity can't be found on the dataset''))) \<and>
             (str_id id_x = ''None'' \<longleftrightarrow> id_x = None) \<and>
             (str_id id_y = ''None'' \<longleftrightarrow> id_y = None))"
  using assms
  by (simp add: distance_on_post_def distance_not_found_def str_id_None_iff Let_def
      del: str_id.simps)

theorem distance_unresolved_reference_witness:
  "distance_on_post ex_dao (Some (JObj [(''distance'', JList [JStr ''Q1'', JStr ''Q9''])])) 1 =
     Inl (Http (HTTPNotFound
       ''The 1 id from entity Q1 or the None id from Q9 entity can't be found on the dataset''))"
proof -
  have b: "distance_body (Some (JObj [(''distance'', JList [JStr ''Q1'', JStr ''Q9''])])) =
             Inr (JStr ''Q1'', JStr ''Q9'')"
    by (simp add: distance_body_def distance_try_def)
  have d: "get_dataset_by_id ex_dao 1 = (Some ex_dto, [])"
    by (simp add: ex_dao_def)
  have s: "get_search_index ex_dao ex_dto = (Some ex_server, [])"
    by (simp add: ex_dao_def)
  have u: "get_entity_id (build_dataset_object ex_dao ex_dto) (JStr ''Q1'') = None \<or>
           get_entity_id (build_dataset_object ex_dao ex_dto) (JStr ''Q9'') = None"
    by (simp add: ex_dao_def ex_dataset_def)
  have one: "str_int 1 = ''1''"
    by (simp add: str_int_def str_nat.simps digit_char_def)
  show ?thesis
    using distance_unresolved_reference [OF b d s u]
    by (simp add: ex_dao_def ex_dataset_def one Let_def)
qed

section \<open>Properties of the similarity endpoint\<close>

lemma length_with_entities: "length (with_entities ds sim) = length sim"
  by (simp add: with_entities_def)

lemma distances_with_entities: "map snd (with_entities ds sim) = map snd sim"
  by (simp add: with_entities_def comp_def case_prod_unfold)

lemma on_get_by_reference:
  assumes "get_dataset_by_id dao dataset_id = (Some dto, err1)"
      and "get_search_index dao dto = (Some srv, err2)"
      and "get_param_as_int (limit_param req) ''limit'' = Inr l"
      and "get_param_as_int (search_k_param req) ''search_k'' = Inr k"
      and "get_entity_id (build_dataset_object dao dto) entity = Some entity_id"
  shows "on_get dao req dataset_id entity False =
           Inr (Similar_200
             \<lparr>se_dataset = dto,
              se_entity_value = get_entity (build_dataset_object dao dto) entity_id,
              se_entity_type = ''uri'',
              se_limit = length (similarity_by_id srv entity_id
                           ((case l of None \<Rightarrow> 10 | Some n \<Rightarrow> n) + 1)
                           (case k of None \<Rightarrow> - 1 | Some s \<Rightarrow> s)),
              se_search_k = (case k of None \<Rightarrow> - 1 | Some s \<Rightarrow> s),
              se_response = with_entities (build_dataset_object dao dto)
                (similarity_by_id srv entity_id
                   ((case l of None \<Rightarrow> 10 | Some n \<Rightarrow> n) + 1)
                   (case k of None \<Rightarrow> - 1 | Some s \<Rightarrow> s))\<rparr>)"
  using assms by (simp add: on_get_def Let_def length_with_entities)

lemma on_get_by_embedding:
  assumes "get_dataset_by_id dao dataset_id = (Some dto, err1)"
      and "get_search_index dao dto = (Some srv, err2)"
      and "get_param_as_int (limit_param req) ''limit'' = Inr l"
      and "get_param_as_int (search_k_param req) ''search_k'' = Inr k"
  shows "on_get dao req dataset_id entity True =
           Inr (Similar_200
             \<lparr>se_dataset = dto,
              se_entity_value = entity,
              se_entity_type = ''embedding'',
              se_limit = length (similarity_by_embedding srv entity
                           ((case l of None \<Rightarrow> 10 | Some n \<Rightarrow> n) + 1)
                           (case k of None \<Rightarrow> - 1 | Some s \<Rightarrow> s)),
              se_search_k = (case k of None \<Rightarrow> - 1 | Some s \<Rightarrow> s),
              se_response = with_entities (build_dataset_object dao dto)
                (similarity_by_embedding srv entity
                   ((case l of None \<Rightarrow> 10 | Some n \<Rightarrow> n) + 1)
                   (case k of None \<Rightarrow> - 1 | Some s \<Rightarrow> s))\<rparr>)"
  using assms by (simp add: on_get_def Let_def length_with_entities)

lemma entity_in_with_entities:
  "e_id \<in> fst ` set sim \<Longrightarrow> get_entity ds e_id \<in> fst ` set (with_entities ds sim)"
  by (force simp add: with_entities_def)

text \<open>
  C1, as stated: a by-reference query with limit \<open>N\<close> returns at most \<open>N\<close> items and never
  the queried entity. The handler asks the server for \<open>N + 1\<close> neighbours and returns
  every one of them: with the answer \<open>[(Q1, 0.0), (Q2, 0.4), (Q3, 0.9)]\<close> for the query
  \<^verbatim>\<open>Q1\<close> and limit 2, the response has the three items, \<^verbatim>\<open>Q1\<close> first.
\<close>

theorem similar_by_reference_counterexample:
  "similar_response (on_get ex_dao ex_request 1 (JStr ''Q1'') False) =
     [(JStr ''Q1'', 0), (JStr ''Q2'', 0.4), (JStr ''Q3'', 0.9)] \<and>
   \<not> length (similar_response (on_get ex_dao ex_request 1 (JStr ''Q1'') False)) \<le> 2 \<and>
   JStr ''Q1'' \<in> fst ` set (similar_response (on_get ex_dao ex_request 1 (JStr ''Q1'') False)) \<and>
   similar_response (on_get ex_dao ex_request 1 (JStr ''Q1'') False) \<noteq> [(JStr ''Q2'', 0.4)]"
  by (simp add: similar_response_def on_get_def ex_dao_def ex_request_def ex_dataset_def
      ex_server_def with_entities_def)

text \<open>
  C1, amended: for a by-reference query with a positive limit \<open>N\<close> on a ready dataset,
  the response is the answer of the server to the request for \<open>N + 1\<close> neighbours, item
  for item and in its order. It has at most \<open>N + 1\<close> items when the server returns no
  more than it was asked for, and nothing is filtered from it: the queried entity is
  in the response whenever it is in the answer.
\<close>

theorem similar_by_reference_unfiltered:
  assumes "get_dataset_by_id dao dataset_id = (Some dto, err1)"
      and "get_search_index dao dto = (Some srv, err2)"
      and "limit_param req = Int_param n" and "0 < n"
      and "get_param_as_int (search_k_param req) ''search_k'' = Inr k"
      and "get_entity_id (build_dataset_object dao dto) entity = Some entity_id"
  shows "(let ds = build_dataset_object dao dto;
              answer = similarity_by_id srv entity_id (n + 1)
                         (case k of None \<Rightarrow> - 1 | Some s \<Rightarrow> s);
              items = similar_response (on_get dao req dataset_id entity False)
          in (\<exists>r. on_get dao req dataset_id entity False = Inr (Similar_200 r) \<and>
                  se_response r = items \<and> se_limit r = length items) \<and>
             items = with_entities ds answer \<and>
             (length answer \<le> nat (n + 1) \<longrightarrow> length items \<le> nat n + 1) \<and>
             (entity_id \<in> fst ` set answer \<longrightarrow> get_entity ds entity_id \<in> fst ` set items))"
proof -
  have l: "get_param_as_int (limit_param req) ''limit'' = Inr (Some n)"
    using assms(3) by simp
  note run = on_get_by_reference [OF assms(1,2) l assms(5,6)]
  have items: "similar_response (on_get dao req dataset_id entity False) =
      with_entities (build_dataset_object dao dto)
        (similarity_by_id srv entity_id (n + 1) (case k of None \<Rightarrow> - 1 | Some s \<Rightarrow> s))"
    using run by (simp add: similar_response_def)
  have ok: "\<exists>r. on_get dao req dataset_id entity False = Inr (Similar_200 r) \<and>
      se_response r = with_entities (build_dataset_object dao dto)
        (similarity_by_id srv entity_id (n + 1) (case k of None \<Rightarrow> - 1 | Some s \<Rightarrow> s)) \<and>
      se_limit r = length (with_entities (build_dataset_object dao dto)
        (similarity_by_id srv entity_id (n + 1) (case k of None \<Rightarrow> - 1 | Some s \<Rightarrow> s)))"
    using run by (simp add: length_with_entities)
  show ?thesis
    unfolding Let_def items
    using \<open>0 < n\<close> ok
    by (auto simp add: length_with_entities entity_in_with_entities nat_add_distrib)
qed

theorem similar_by_reference_unfiltered_witness:
  "similar_response (on_get ex_dao ex_request 1 (JStr ''Q1'') False) =
     [(JStr ''Q1'', 0), (JStr ''Q2'', 0.4), (JStr ''Q3'', 0.9)] \<and>
   length (similar_response (on_get ex_dao ex_request 1 (JStr ''Q1'') False)) \<le> 3"
proof -
  have d: "get_dataset_by_id ex_dao 1 = (Some ex_dto, [])"
    by (simp add: ex_dao_def)
  have s: "get_search_index ex_dao ex_dto = (Some ex_server, [])"
    by (simp add: ex_dao_def)
  have l: "limit_param ex_request = Int_param 2" and p: "(0::int) < 2"
    by (simp_all add: ex_request_def)
  have k: "get_param_as_int (search_k_param ex_request) ''search_k'' = Inr None"
    by (simp add: ex_request_def)
  have e: "get_entity_id (build_dataset_object ex_dao ex_dto) (JStr ''Q1'') = Some 1"
    by (simp add: ex_dao_def ex_dataset_def)
  have items: "similar_response (on_get ex_dao ex_request 1 (JStr ''Q1'') False) =
      with_entities (build_dataset_object ex_dao ex_dto) (similarity_by_id ex_server 1 (2 + 1) (- 1))"
    using similar_by_reference_unfiltered [OF d s l p k e] by (simp add: Let_def)
  have "with_entities (build_dataset_object ex_dao ex_dto) (similarity_by_id ex_server 1 (2 + 1) (- 1)) =
      [(JStr ''Q1'', 0), (JStr ''Q2'', 0.4), (JStr ''Q3'', 0.9)]"
    by (simp add: ex_dao_def ex_dataset_def ex_server_def with_entities_def)
  with items show ?thesis by simp
qed

text \<open>
  C8. A request without \<^verbatim>\<open>limit\<close> is answered as one with \<^verbatim>\<open>limit=10\<close>, and a request
  without \<^verbatim>\<open>search_k\<close> as one with \<^verbatim>\<open>search_k=-1\<close>; with both absent on a ready dataset,
  the server is asked for \<open>10 + 1\<close> neighbours with search effort \<open>-1\<close>, on either path.
\<close>

theorem default_limit_and_search_k:
  "on_get dao (req\<lparr>limit_param := Absent\<rparr>) dataset_id entity embedding =
     on_get dao (req\<lparr>limit_param := Int_param 10\<rparr>) dataset_id entity embedding \<and>
   on_get dao (req\<lparr>search_k_param := Absent\<rparr>) dataset_id entity embedding =
     on_get dao (req\<lparr>search_k_param := Int_param (- 1)\<rparr>) dataset_id entity embedding \<and>
   (get_dataset_by_id dao dataset_id = (Some dto, err1) \<and>
    get_search_index dao dto = (Some srv, err2) \<longrightarrow>
      similar_response
        (on_get dao \<lparr>limit_param = Absent, search_k_param = Absent\<rparr> dataset_id entity True) =
      with_entities (build_dataset_object dao dto)
        (similarity_by_embedding srv entity (10 + 1) (- 1)) \<and>
      (\<forall>entity_id. get_entity_id (build_dataset_object dao dto) entity = Some entity_id \<longrightarrow>
         on_get dao \<lparr>limit_param = Absent, search_k_param = Absent\<rparr> dataset_id entity False =
           Inr (Similar_200
             \<lparr>se_dataset = dto,
              se_entity_value = get_entity (build_dataset_object dao dto) entity_id,
              se_entity_type = ''uri'',
              se_limit = length (similarity_by_id srv entity_id (10 + 1) (- 1)),
              se_search_k = - 1,
              se_response = with_entities (build_dataset_object dao dto)
                (similarity_by_id srv entity_id (10 + 1) (- 1))\<rparr>)))"
proof (intro conjI impI allI)
  show "on_get dao (req\<lparr>limit_param := Absent\<rparr>) dataset_id entity embedding =
     on_get dao (req\<lparr>limit_param := Int_param 10\<rparr>) dataset_id entity embedding"
    by (auto simp add: on_get_def Let_def split: prod.splits option.splits)
  show "on_get dao (req\<lparr>search_k_param := Absent\<rparr>) dataset_id entity embedding =
     on_get dao (req\<lparr>search_k_param := Int_param (- 1)\<rparr>) dataset_id entity embedding"
    by (auto simp add: on_get_def Let_def split: prod.splits option.splits sum.splits)
next
  assume r: "get_dataset_by_id dao dataset_id = (Some dto, err1) \<and>
    get_search_index dao dto = (Some srv, err2)"
  show "similar_response
        (on_get dao \<lparr>limit_param = Absent, search_k_param = Absent\<rparr> dataset_id entity True) =
      with_entities (build_dataset_object dao dto)
        (similarity_by_embedding srv entity (10 + 1) (- 1))"
    using on_get_by_embedding [of dao dataset_id dto err1 srv err2
        "\<lparr>limit_param = Absent, search_k_param = Absent\<rparr>" None None entity] r
    by (simp add: similar_response_def)
next
  fix entity_id
  assume r: "get_dataset_by_id dao dataset_id = (Some dto, err1) \<and>
    get_search_index dao dto = (Some srv, err2)"
    and e: "get_entity_id (build_dataset_object dao dto) entity = Some entity_id"
  show "on_get dao \<lparr>limit_param = Absent, search_k_param = Absent\<rparr> dataset_id entity False =
           Inr (Similar_200
             \<lparr>se_dataset = dto,
              se_entity_value = get_entity (build_dataset_object dao dto) entity_id,
              se_entity_type = ''uri'',
              se_limit = length (similarity_by_id srv entity_id (10 + 1) (- 1)),
              se_search_k = - 1,
              se_response = with_entities (build_dataset_object dao dto)
                (similarity_by_id srv entity_id (10 + 1) (- 1))\<rparr>)"
    using on_get_by_reference [of dao dataset_id dto err1 srv err2
        "\<lparr>limit_param = Absent, search_k_param = Absent\<rparr>" None None entity entity_id] r e
    by simp
qed


theorem default_limit_and_search_k_witness:
  "similar_response
     (on_get echo_dao \<lparr>limit_param = Absent, search_k_param = Absent\<rparr> 1 (JList [JNum ''0.5'']) True) =
     [(JStr ''Q1'', 11), (JStr ''Q2'', - 1)] \<and>
   similar_response
     (on_get echo_dao \<lparr>limit_param = Absent, search_k_param = Absent\<rparr> 1 (JStr ''Q3'') False) =
     [(JStr ''Q3'', 11), (JStr ''Q3'', - 1)]"
proof -
  have d: "get_dataset_by_id echo_dao 1 = (Some ex_dto, [])"
    by (simp add: echo_dao_def)
  have s: "get_search_index echo_dao ex_dto = (Some echo_server, [])"
    by (simp add: echo_dao_def)
  have e: "get_entity_id (build_dataset_object echo_dao ex_dto) (JStr ''Q3'') = Some 3"
    by (simp add: echo_dao_def ex_dataset_def)
  note t1 = default_limit_and_search_k [where dao = echo_dao and dataset_id = 1
      and dto = ex_dto and ?err1.0 = "[]" and srv = echo_server and ?err2.0 = "[]"
      and entity = "JList [JNum ''0.5'']"]
  note t2 = default_limit_and_search_k [where dao = echo_dao and dataset_id = 1
      and dto = ex_dto and ?err1.0 = "[]" and srv = echo_server and ?err2.0 = "[]"
      and entity = "JStr ''Q3''"]
  have a: "similar_response
     (on_get echo_dao \<lparr>limit_param = Absent, search_k_param = Absent\<rparr> 1 (JList [JNum ''0.5'']) True) =
     with_entities (build_dataset_object echo_dao ex_dto)
       (similarity_by_embedding echo_server (JList [JNum ''0.5'']) (10 + 1) (- 1))"
    using t1 d s by simp
  have b: "similar_response
     (on_get echo_dao \<lparr>limit_param = Absent, search_k_param = Absent\<rparr> 1 (JStr ''Q3'') False) =
     with_entities (build_dataset_object echo_dao ex_dto)
       (similarity_by_id echo_server 3 (10 + 1) (- 1))"
    using t2 d s e by (simp add: similar_response_def)
  show ?thesis
    unfolding a b by (simp add: echo_dao_def echo_server_def ex_dataset_def with_entities_def)
qed

text \<open>
  C10, as stated: every body whose entity type lowercases to \<^verbatim>\<open>uri\<close> takes the
  by-reference path, and any other type value is answered with 400. A type that is not
  a string has no \<^verbatim>\<open>lower\<close>: the handler ends in an uncaught \<^verbatim>\<open>AttributeError\<close>. An entity
  of type \<^verbatim>\<open>URI\<close> without a \<^verbatim>\<open>value\<close> ends in an uncaught \<^verbatim>\<open>KeyError\<close> before \<open>on_get\<close> is
  called.
\<close>

theorem similar_type_counterexample:
  "on_post ex_dao ex_request
     (Some (JObj [(''entity'', JObj [(''type'', JNum ''5''), (''value'', JStr ''Q1'')])])) 1 =
     Inl (Py AttributeError) \<and>
   on_post ex_dao ex_request
     (Some (JObj [(''entity'', JObj [(''type'', JStr ''URI'')])])) 1 =
     Inl (Py (KeyError (JStr ''value'')))"
  by (simp add: on_post_def has_entity_type_def entity_field_def lower_char_def)

lemma on_post_typed:
  assumes "map_of body ''entity'' = Some (JObj obj)"
      and "map_of obj ''type'' = Some (JStr ty)"
  shows "on_post dao req (Some (JObj body)) dataset_id =
     (if map lower_char ty = ''uri'' then
        (case map_of obj ''value'' of
           None \<Rightarrow> Inl (Py (KeyError (JStr ''value'')))
         | Some v \<Rightarrow> on_get dao req dataset_id v False)
      else if map lower_char ty = ''embedding'' then
        (case map_of obj ''value'' of
           None \<Rightarrow> Inl (Py (KeyError (JStr ''value'')))
         | Some v \<Rightarrow> on_get dao req dataset_id v True)
      else Inr (Message_400 (type_not_recognized (JStr ty) (JObj obj))))"
proof -
  have e: "''entity'' \<in> fst ` set body"
    using assms(1) by (metis domI dom_map_of_conv_image_fst)
  have t: "''type'' \<in> fst ` set obj"
    using assms(2) by (metis domI dom_map_of_conv_image_fst)
  have h: "has_entity_type (JObj body) = Inr True"
    using assms e t by (simp add: has_entity_type_def)
  show ?thesis
    using assms h by (simp add: on_post_def entity_field_def split: option.split)
qed

text \<open>
  C10, amended: for a body that is an object whose \<^verbatim>\<open>entity\<close> is an object with a string
  \<^verbatim>\<open>type\<close>, the type is matched without regard to case: when it lowercases to \<^verbatim>\<open>uri\<close>
  and the entity has a \<^verbatim>\<open>value\<close>, the handler answers as \<open>on_get\<close> by reference; when it
  lowercases to \<^verbatim>\<open>embedding\<close> and the entity has a \<^verbatim>\<open>value\<close>, as \<open>on_get\<close> by embedding;
  for any other string, with the status 400 and a message that names the type.
\<close>

theorem similar_type_case_insensitive:
  assumes "map_of body ''entity'' = Some (JObj obj)"
      and "map_of obj ''type'' = Some (JStr ty)"
  shows "(map lower_char ty = ''uri'' \<and> map_of obj ''value'' = Some v \<longrightarrow>
            on_post dao req (Some (JObj body)) dataset_id = on_get dao req dataset_id v False) \<and>
         (map lower_char ty = ''embedding'' \<and> map_of obj ''value'' = Some v \<longrightarrow>
            on_post dao req (Some (JObj body)) dataset_id = on_get dao req dataset_id v True) \<and>
         (map lower_char ty \<noteq> ''uri'' \<and> map lower_char ty \<noteq> ''embedding'' \<longrightarrow>
            on_post dao req (Some (JObj body)) dataset_id =
              Inr (Message_400
                (''The type '' @ [CHR 0x27] @ ty @ [CHR 0x27] @ '' of the entity '' @
                 py_str (JObj obj) @
                 '' is not recognized. Please, take a look to the documentation.'')))"
  using on_post_typed [OF assms, of dao req dataset_id]
  by (simp add: type_not_recognized_def)

theorem similar_type_case_insensitive_witness:
  "on_post ex_dao ex_request
     (Some (JObj [(''entity'', JObj [(''type'', JStr ''URI''), (''value'', JStr ''Q1'')])])) 1 =
     on_get ex_dao ex_request 1 (JStr ''Q1'') False \<and>
   on_post ex_dao ex_request
     (Some (JObj [(''entity'', JObj [(''type'', JStr ''Embedding''), (''value'', JList [JNum ''0.5''])])])) 1 =
     on_get ex_dao ex_request 1 (JList [JNum ''0.5'']) True \<and>
   on_post ex_dao ex_request
     (Some (JObj [(''entity'', JObj [(''type'', JStr ''label''), (''value'', JStr ''Q1'')])])) 1 =
     Inr (Message_400 (''The type 'label' of the entity {'type': 'label', 'value': 'Q1'}'' @
           '' is not recognized. Please, take a look to the documentation.''))"
proof -
  have a: "map_of [(''entity'', JObj [(''type'', JStr ''URI''), (''value'', JStr ''Q1'')])] ''entity'' =
      Some (JObj [(''type'', JStr ''URI''), (''value'', JStr ''Q1'')])" by simp
  have b: "map_of [(''type'', JStr ''URI''), (''value'', JStr ''Q1'')] ''type'' = Some (JStr ''URI'')"
    by simp
  have c: "map_of [(''entity'', JObj [(''type'', JStr ''Embedding''), (''value'', JList [JNum ''0.5''])])]
      ''entity'' = Some (JObj [(''type'', JStr ''Embedding''), (''value'', JList [JNum ''0.5''])])"
    by simp
  have d: "map_of [(''type'', JStr ''Embedding''), (''value'', JList [JNum ''0.5''])] ''type'' =
      Some (JStr ''Embedding'')" by simp
  have e: "map_of [(''entity'', JObj [(''type'', JStr ''label''), (''value'', JStr ''Q1'')])] ''entity'' =
      Some (JObj [(''type'', JStr ''label''), (''value'', JStr ''Q1'')])" by simp
  have f: "map_of [(''type'', JStr ''label''), (''value'', JStr ''Q1'')] ''type'' = Some (JStr ''label'')"
    by simp
  show ?thesis
    using similar_type_case_insensitive [OF a b, of "JStr ''Q1''" ex_dao ex_request 1]
      similar_type_case_insensitive [OF c d, of "JList [JNum ''0.5'']" ex_dao ex_request 1]
      similar_type_case_insensitive [OF e f, of JNull ex_dao ex_request 1]
    by (simp add: lower_char_def repr_str_def escape_char_def Let_def)
qed


section \<open>Properties of the suggestion index\<close>

text \<open>
  C7. \<open>generate_index\<close> succeeds on every state of the engine and leaves the index new,
  with the DAO's mapping and no document. When the index does not exist, the deletion
  raises \<^verbatim>\<open>NotFoundError\<close>, which is passed over, and the index is created; when it
  exists, it is deleted first and then created.
\<close>

theorem generate_index_recreates:
  "generate_index dao indexName es =
     Inr (es(indexName \<mapsto> \<lparr>idx_body = index_body (dao_type dao), idx_docs = []\<rparr>)) \<and>
   (es indexName = None \<longrightarrow>
      indices_delete es indexName = Inl NotFoundError \<and>
      generate_index dao indexName es =
        indices_create es indexName (index_body (dao_type dao))) \<and>
   (es indexName \<noteq> None \<longrightarrow>
      indices_delete es indexName = Inr (es(indexName := None)) \<and>
      generate_index dao indexName es =
        indices_create (es(indexName := None)) indexName (index_body (dao_type dao)))"
  by (simp add: generate_index_def indices_delete_def indices_create_def Let_def)

theorem generate_index_recreates_witness:
  "generate_index ex_dao_a ''entities'' Map.empty =
     Inr [''entities'' \<mapsto> \<lparr>idx_body = index_body ''0'', idx_docs = []\<rparr>] \<and>
   generate_index ex_dao_a ''entities'' [''entities'' \<mapsto> ex_old_index] =
     Inr [''entities'' \<mapsto> \<lparr>idx_body = index_body ''0'', idx_docs = []\<rparr>]"
  using generate_index_recreates [of ex_dao_a "''entities''" Map.empty]
    generate_index_recreates [of ex_dao_a "''entities''" "[''entities'' \<mapsto> ex_old_index]"]
  by (simp add: ex_dao_a_def)


subsection \<open>What one upsert does to the documents\<close>

lemma update_absent: "map_of al k = None \<Longrightarrow> AList.update k v al = al @ [(k, v)]"
  by (induction al) (auto split: if_splits)

lemma upsert_as_update:
  "update_doc_as_upsert docs key doc =
     Inr (AList.update key
            (case map_of docs key of None \<Rightarrow> new_doc doc | Some old \<Rightarrow> merge_doc old doc) docs)"
  by (simp add: update_doc_as_upsert_def update_absent split: option.split)

lemma insert_entity_eq:
  "insert_entity dao entity docs =
     Inr (AList.update (dao_type dao, ent_entity entity)
            (dataset_script (dao_dataset_id dao)
               (case map_of docs (dao_type dao, ent_entity entity) of
                  None \<Rightarrow> new_doc (full_doc_of entity)
                | Some old \<Rightarrow> merge_doc old (full_doc_of entity)))
            docs)"
  unfolding full_doc_of_def
  by (simp add: insert_entity_def upsert_as_update update_script_def AList.update_conv' Let_def)


lemma datasets_after_script:
  "src_datasets (dataset_script d src) =
     Some (case src_datasets src of
             None \<Rightarrow> [d]
           | Some ds \<Rightarrow> if d \<in> set ds then ds else ds @ [d])"
  by (simp add: dataset_script_def split: option.split)

lemma datasets_merge_doc: "src_datasets (merge_doc old doc) = src_datasets old"
  by (simp add: merge_doc_def)

lemma datasets_new_doc: "src_datasets (new_doc doc) = None"
  by (simp add: new_doc_def)

lemma datasets_at_insert_same:
  assumes "insert_entity dao entity docs = Inr docs'"
  shows "datasets_at docs' (dao_type dao, ent_entity entity) =
           add_dataset (dao_dataset_id dao) (datasets_at docs (dao_type dao, ent_entity entity))"
  using assms unfolding insert_entity_eq
  by (auto simp add: datasets_at_def AList.update_conv' datasets_after_script datasets_merge_doc
      datasets_new_doc add_dataset_def split: option.splits)

lemma map_of_insert_other:
  assumes "insert_entity dao entity docs = Inr docs'"
      and "key \<noteq> (dao_type dao, ent_entity entity)"
  shows "map_of docs' key = map_of docs key"
  using assms unfolding insert_entity_eq by (auto simp add: AList.update_conv')

lemma keys_after_insert:
  assumes "insert_entity dao entity docs = Inr docs'"
  shows "distinct (map fst docs) \<Longrightarrow> distinct (map fst docs')"
    and "(dao_type dao, ent_entity entity) \<in> fst ` set docs'"
  using assms unfolding insert_entity_eq
  by (auto simp add: AList.distinct_update AList.dom_update)

lemma list_all_update:
  "list_all P al \<Longrightarrow> P (k, v) \<Longrightarrow> list_all P (AList.update k v al)"
  by (induction al) auto

lemma wf_store_datasets:
  assumes "wf_store docs"
  shows "distinct (datasets_at docs key)"
proof (cases "map_of docs key")
  case None
  then show ?thesis by (simp add: datasets_at_def)
next
  case (Some src)
  then have "(key, src) \<in> set docs" by (rule map_of_SomeD)
  with assms have "case src_datasets src of None \<Rightarrow> True | Some ds \<Rightarrow> distinct ds"
    by (auto simp add: wf_store_def list_all_iff)
  with Some show ?thesis by (simp add: datasets_at_def split: option.splits)
qed

lemma distinct_add_dataset: "distinct ds \<Longrightarrow> distinct (add_dataset d ds)"
  by (simp add: add_dataset_def)

lemma wf_store_insert:
  assumes "wf_store docs" and "insert_entity dao entity docs = Inr docs'"
  shows "wf_store docs'"
proof -
  let ?key = "(dao_type dao, ent_entity entity)"
  let ?src = "dataset_script (dao_dataset_id dao)
               (case map_of docs ?key of
                  None \<Rightarrow> new_doc (full_doc_of entity)
                | Some old \<Rightarrow> merge_doc old (full_doc_of entity))"
  have docs': "docs' = AList.update ?key ?src docs"
    using assms(2) unfolding insert_entity_eq by simp
  have "distinct (datasets_at docs ?key)"
    using assms(1) by (rule wf_store_datasets)
  then have "case src_datasets ?src of None \<Rightarrow> True | Some ds \<Rightarrow> distinct ds"
    by (auto simp add: datasets_after_script datasets_merge_doc datasets_new_doc datasets_at_def
        split: option.splits)
  with assms(1) show ?thesis
    unfolding docs' wf_store_def
    by (simp add: AList.distinct_update list_all_update)
qed

lemma one_doc_at:
  "distinct (map fst al) \<Longrightarrow> k \<in> fst ` set al \<Longrightarrow> length (filter (\<lambda>kv. fst kv = k) al) = 1"
proof (induction al)
  case Nil
  then show ?case by simp
next
  case (Cons a al)
  show ?case
  proof (cases "fst a = k")
    case True
    with Cons.prems have "k \<notin> fst ` set al" by auto
    then have "filter (\<lambda>kv. fst kv = k) al = []" by (auto simp add: filter_empty_conv)
    with True show ?thesis by simp
  next
    case False
    with Cons show ?thesis by auto
  qed
qed

lemma insert_entity_succeeds: "\<exists>docs'. insert_entity dao entity docs = Inr docs'"
  unfolding insert_entity_eq by simp

lemma insert_entity_one_doc:
  assumes "wf_store docs" and "insert_entity dao entity docs = Inr docs'"
  shows "length (docs_at docs' (dao_type dao, ent_entity entity)) = 1"
  unfolding docs_at_def
  using keys_after_insert [OF assms(2)] assms(1)
  by (intro one_doc_at) (auto simp add: wf_store_def)


lemma wf_store_empty: "wf_store []"
  by (simp add: wf_store_def)

text \<open>
  C3, as stated: upserting the same entity under two dataset scopes leaves exactly one
  document for the entity reference, with both scopes. A document is written under the
  DAO's type as well as the reference: two DAOs of different dataset types write two
  documents for the same reference, each with one scope.
\<close>

theorem upsert_two_types_counterexample:
  "length (docs_of_entity (docs_after (insert_through [ex_dao_a, ex_dao_c] ex_entity [])) ''Q1'') = 2 \<and>
   datasets_at (docs_after (insert_through [ex_dao_a, ex_dao_c] ex_entity [])) (''0'', ''Q1'') = [1] \<and>
   datasets_at (docs_after (insert_through [ex_dao_a, ex_dao_c] ex_entity [])) (''1'', ''Q1'') = [2]"
  by (simp add: insert_entity_eq docs_after_def docs_of_entity_def datasets_at_def
      ex_dao_a_def ex_dao_c_def ex_entity_def dataset_script_def new_doc_def)

text \<open>
  C3, amended: on an index with one document under a key and no dataset twice in a
  document (the empty index is one, and \<open>insert_entity\<close> keeps it so), upserting the same
  entity through two DAOs of the same dataset type, in either order, and twice through
  the same DAO, succeeds and leaves exactly one document of that type for the entity
  reference; its \<^verbatim>\<open>datasets\<close> holds both scopes, each value at most once, the same set in
  either order, and a repeated upsert leaves \<^verbatim>\<open>datasets\<close> as the first one did.
\<close>

theorem upsert_merges_datasets:
  assumes "wf_store docs" and "dao_type a = dao_type b"
  shows "\<exists>d_ab d_ba d_a d_aa.
           insert_through [a, b] entity docs = Inr d_ab \<and>
           insert_through [b, a] entity docs = Inr d_ba \<and>
           insert_through [a] entity docs = Inr d_a \<and>
           insert_through [a, a] entity docs = Inr d_aa \<and>
           length (docs_at d_ab (dao_type a, ent_entity entity)) = 1 \<and>
           length (docs_at d_ba (dao_type a, ent_entity entity)) = 1 \<and>
           length (docs_at d_aa (dao_type a, ent_entity entity)) = 1 \<and>
           dao_dataset_id a \<in> set (datasets_at d_ab (dao_type a, ent_entity entity)) \<and>
           dao_dataset_id b \<in> set (datasets_at d_ab (dao_type a, ent_entity entity)) \<and>
           set (datasets_at d_ba (dao_type a, ent_entity entity)) =
             set (datasets_at d_ab (dao_type a, ent_entity entity)) \<and>
           distinct (datasets_at d_ab (dao_type a, ent_entity entity)) \<and>
           distinct (datasets_at d_ba (dao_type a, ent_entity entity)) \<and>
           distinct (datasets_at d_aa (dao_type a, ent_entity entity)) \<and>
           datasets_at d_aa (dao_type a, ent_entity entity) =
             datasets_at d_a (dao_type a, ent_entity entity)"
proof -
  let ?key = "(dao_type a, ent_entity entity)"
  have keyb: "(dao_type b, ent_entity entity) = ?key"
    using assms(2) by simp
  obtain d_a where a: "insert_entity a entity docs = Inr d_a"
    using insert_entity_succeeds by blast
  obtain d_b where b: "insert_entity b entity docs = Inr d_b"
    using insert_entity_succeeds by blast
  obtain d_ab where ab: "insert_entity b entity d_a = Inr d_ab"
    using insert_entity_succeeds by blast
  obtain d_ba where ba: "insert_entity a entity d_b = Inr d_ba"
    using insert_entity_succeeds by blast
  obtain d_aa where aa: "insert_entity a entity d_a = Inr d_aa"
    using insert_entity_succeeds by blast
  have wf_a: "wf_store d_a" and wf_b: "wf_store d_b"
    using assms(1) a b by (auto intro: wf_store_insert)
  have wf_ab: "wf_store d_ab" and wf_ba: "wf_store d_ba" and wf_aa: "wf_store d_aa"
    using wf_a wf_b ab ba aa by (auto intro: wf_store_insert)
  have ds_a: "datasets_at d_a ?key = add_dataset (dao_dataset_id a) (datasets_at docs ?key)"
    using datasets_at_insert_same [OF a] .
  have ds_b: "datasets_at d_b ?key = add_dataset (dao_dataset_id b) (datasets_at docs ?key)"
    using datasets_at_insert_same [OF b] unfolding keyb .
  have ds_ab: "datasets_at d_ab ?key = add_dataset (dao_dataset_id b) (datasets_at d_a ?key)"
    using datasets_at_insert_same [OF ab] unfolding keyb .
  have ds_ba: "datasets_at d_ba ?key = add_dataset (dao_dataset_id a) (datasets_at d_b ?key)"
    using datasets_at_insert_same [OF ba] .
  have ds_aa: "datasets_at d_aa ?key = add_dataset (dao_dataset_id a) (datasets_at d_a ?key)"
    using datasets_at_insert_same [OF aa] .
  have one_ab: "length (docs_at d_ab ?key) = 1"
    using insert_entity_one_doc [OF wf_a ab] unfolding keyb .
  have one_ba: "length (docs_at d_ba ?key) = 1"
    using insert_entity_one_doc [OF wf_b ba] .
  have one_aa: "length (docs_at d_aa ?key) = 1"
    using insert_entity_one_doc [OF wf_a aa] .
  have runs: "insert_through [a, b] entity docs = Inr d_ab"
    "insert_through [b, a] entity docs = Inr d_ba"
    "insert_through [a] entity docs = Inr d_a"
    "insert_through [a, a] entity docs = Inr d_aa"
    using a b ab ba aa by simp_all
  have mem: "dao_dataset_id a \<in> set (datasets_at d_ab ?key)"
    "dao_dataset_id b \<in> set (datasets_at d_ab ?key)"
    "set (datasets_at d_ba ?key) = set (datasets_at d_ab ?key)"
    "datasets_at d_aa ?key = datasets_at d_a ?key"
    unfolding ds_ab ds_ba ds_aa ds_a ds_b by (auto simp add: add_dataset_def)
  have dist: "distinct (datasets_at d_ab ?key)" "distinct (datasets_at d_ba ?key)"
    "distinct (datasets_at d_aa ?key)"
    using wf_ab wf_ba wf_aa by (auto intro: wf_store_datasets)
  show ?thesis
    using runs one_ab one_ba one_aa mem dist by blast
qed

theorem upsert_merges_datasets_witness:
  "wf_store [] \<and> dao_type ex_dao_a = dao_type ex_dao_b \<and>
   length (docs_at (docs_after (insert_through [ex_dao_a, ex_dao_b] ex_entity []))
             (''0'', ''Q1'')) = 1 \<and>
   datasets_at (docs_after (insert_through [ex_dao_a, ex_dao_b] ex_entity [])) (''0'', ''Q1'') = [1, 2] \<and>
   datasets_at (docs_after (insert_through [ex_dao_b, ex_dao_a] ex_entity [])) (''0'', ''Q1'') = [2, 1] \<and>
   datasets_at (docs_after (insert_through [ex_dao_a, ex_dao_a] ex_entity [])) (''0'', ''Q1'') = [1]"
proof -
  have w: "wf_store []"
    by (simp add: wf_store_def)
  have t: "dao_type ex_dao_a = dao_type ex_dao_b"
    by (simp add: ex_dao_a_def ex_dao_b_def)
  obtain d_ab where ab: "insert_through [ex_dao_a, ex_dao_b] ex_entity [] = Inr d_ab"
    and one: "length (docs_at d_ab (dao_type ex_dao_a, ent_entity ex_entity)) = 1"
    using upsert_merges_datasets [OF w t, of ex_entity] by blast
  have key: "(dao_type ex_dao_a, ent_entity ex_entity) = (''0'', ''Q1'')"
    by (simp add: ex_dao_a_def ex_entity_def)
  have "length (docs_at (docs_after (insert_through [ex_dao_a, ex_dao_b] ex_entity []))
             (''0'', ''Q1'')) = 1"
    using one unfolding ab key by (simp add: docs_after_def)
  moreover have
    "datasets_at (docs_after (insert_through [ex_dao_a, ex_dao_b] ex_entity [])) (''0'', ''Q1'') = [1, 2]"
    "datasets_at (docs_after (insert_through [ex_dao_b, ex_dao_a] ex_entity [])) (''0'', ''Q1'') = [2, 1]"
    "datasets_at (docs_after (insert_through [ex_dao_a, ex_dao_a] ex_entity [])) (''0'', ''Q1'') = [1]"
    by (simp_all add: insert_entity_eq docs_after_def datasets_at_def ex_dao_a_def ex_dao_b_def
        ex_entity_def dataset_script_def new_doc_def merge_doc_def)
  ultimately show ?thesis using w t by simp
qed

subsection \<open>The loop over the options\<close>

text \<open>The \<^verbatim>\<open>str\<close> of a \<^verbatim>\<open>KeyError\<close> is the quoted key, so it is neither \<^verbatim>\<open>datasets\<close> nor
  \<^verbatim>\<open>entities\<close>: the inner handler raises every \<^verbatim>\<open>KeyError\<close> again, and the outer one
  never empties the list.\<close>

lemma repr_str_quoted: "hd (repr_str s) = CHR 0x27 \<or> hd (repr_str s) = CHR 0x22"
  by (simp add: repr_str_def Let_def)

lemma repr_str_not_datasets: "repr_str s \<noteq> ''datasets''"
  using repr_str_quoted [of s] by auto

lemma repr_str_not_entities: "repr_str s \<noteq> ''entities''"
  using repr_str_quoted [of s] by auto

lemma option_step_KeyError:
  "option_try d opt = Inl (Py (KeyError (JStr key))) \<Longrightarrow>
   option_step d opt = Inl (Py (KeyError (JStr key)))"
  by (simp add: option_step_def repr_str_not_datasets)

lemma option_try_raises:
  "option_try d opt = Inl r \<Longrightarrow> \<exists>key. r = Py (KeyError (JStr key))"
  by (auto simp add: option_try_def EntityDTO_def split: option.splits if_splits sum.splits)

lemma option_step_cases:
  "option_step d opt = option_try d opt"
proof (cases "option_try d opt")
  case (Inl r)
  then obtain key where "r = Py (KeyError (JStr key))"
    using option_try_raises by blast
  with Inl show ?thesis by (simp add: option_step_KeyError)
next
  case (Inr v)
  then show ?thesis by (simp add: option_step_def)
qed

lemma option_try_Some:
  assumes "option_try d opt = Inr (Some s)"
  shows "\<exists>src ds. opt_source opt = Some src \<and> src_datasets src = Some ds \<and> d \<in> set ds \<and>
           src_entity src = Some (dto_entity (sg_entity s)) \<and> opt_text opt = Some (sg_text s)"
  using assms
  by (auto simp add: option_try_def EntityDTO_def split: option.splits if_splits sum.splits)

lemma options_loop_items:
  "options_loop d opts acc = (res, exc) \<Longrightarrow> s \<in> set res \<Longrightarrow>
   s \<in> set acc \<or> (\<exists>opt \<in> set opts. option_try d opt = Inr (Some s))"
proof (induction opts arbitrary: acc)
  case Nil
  then show ?case by simp
next
  case (Cons opt opts)
  show ?case
  proof (cases "option_step d opt")
    case (Inl r)
    with Cons.prems show ?thesis by simp
  next
    case (Inr v)
    show ?thesis
    proof (cases v)
      case None
      with Inr Cons.prems have "options_loop d opts acc = (res, exc)" by simp
      from Cons.IH [OF this Cons.prems(2)] show ?thesis by auto
    next
      case (Some item)
      with Inr Cons.prems have "options_loop d opts (acc @ [item]) = (res, exc)" by simp
      from Cons.IH [OF this Cons.prems(2)] Inr Some show ?thesis
        by (auto simp add: option_step_cases)
    qed
  qed
qed

lemma options_loop_raises:
  "options_loop d opts acc = (res, Some r) \<Longrightarrow> \<exists>key. r = Py (KeyError (JStr key))"
proof (induction opts arbitrary: acc)
  case Nil
  then show ?case by simp
next
  case (Cons opt opts)
  then show ?case
    using option_try_raises [of d opt]
    by (auto simp add: option_step_cases split: sum.splits option.splits)
qed

lemma options_loop_append:
  "options_loop d before acc = (collected, None) \<Longrightarrow>
   options_loop d (before @ rest) acc = options_loop d rest collected"
  by (induction before arbitrary: acc) (auto split: sum.splits option.splits)


lemma suggest_try_raises:
  "suggest_try d resp = (res, Some r) \<Longrightarrow>
   (\<exists>key. r = Py (KeyError (JStr key))) \<or> (r = Py IndexError \<and> resp_entities resp = Some [])"
  using options_loop_raises [of d _ "[]" res r]
  by (auto simp add: suggest_try_def split: option.splits list.splits)

lemma suggest_try_items:
  assumes "suggest_try d resp = (res, exc)" and "s \<in> set res"
  shows "\<exists>opt \<in> set (candidates resp). option_try d opt = Inr (Some s)"
proof -
  from assms obtain first others opts where
    r: "resp_entities resp = Some (first # others)" "entry_options first = Some opts"
    and l: "options_loop d opts [] = (res, exc)"
    by (auto simp add: suggest_try_def split: option.splits list.splits)
  from options_loop_items [OF l assms(2)] r show ?thesis
    by (simp add: candidates_def)
qed

lemma suggest_entity_items:
  assumes "suggest_entity dao es_suggest input_string = Inr items" and "s \<in> set items"
  shows "\<exists>opt \<in> set (candidates (es_suggest (dao_index dao) input_string)).
           option_try (dao_dataset_id dao) opt = Inr (Some s)"
proof -
  obtain res exc where t: "suggest_try (dao_dataset_id dao) (es_suggest (dao_index dao) input_string) = (res, exc)"
    by (cases "suggest_try (dao_dataset_id dao) (es_suggest (dao_index dao) input_string)")
  have "s \<in> set res"
  proof (cases exc)
    case None
    with t assms show ?thesis by (simp add: suggest_entity_def)
  next
    case (Some r)
    with t have "suggest_try (dao_dataset_id dao) (es_suggest (dao_index dao) input_string) =
        (res, Some r)"
      by simp
    from suggest_try_raises [OF this]
    consider key where "r = Py (KeyError (JStr key))" | "r = Py IndexError" by blast
    then show ?thesis
    proof cases
      case 1
      with t Some assms show ?thesis
        by (simp add: suggest_entity_def repr_str_not_entities)
    next
      case 2
      with t Some assms show ?thesis by (simp add: suggest_entity_def)
    qed
  qed
  with t show ?thesis by (rule suggest_try_items)
qed

lemma suggest_entity_returns:
  assumes "resp_entities (es_suggest (dao_index dao) input_string) \<noteq> Some []"
  shows "\<exists>items. suggest_entity dao es_suggest input_string = Inr items"
proof -
  obtain res exc where t: "suggest_try (dao_dataset_id dao) (es_suggest (dao_index dao) input_string) = (res, exc)"
    by (cases "suggest_try (dao_dataset_id dao) (es_suggest (dao_index dao) input_string)")
  show ?thesis
  proof (cases exc)
    case None
    with t show ?thesis by (simp add: suggest_entity_def)
  next
    case (Some r)
    with t have "suggest_try (dao_dataset_id dao) (es_suggest (dao_index dao) input_string) = (res, Some r)"
      by simp
    from suggest_try_raises [OF this] assms obtain key where "r = Py (KeyError (JStr key))"
      by blast
    with t Some show ?thesis by (simp add: suggest_entity_def)
  qed
qed

text \<open>
  Every item that \<open>suggest_entity\<close> returns comes from an option of the answer whose
  source has \<^verbatim>\<open>datasets\<close> with the DAO's dataset in it, so a document without the field
  is never returned; and whatever the options lack, the method returns a list and
  raises nothing, unless the answer has an empty list under \<^verbatim>\<open>entities\<close>.
\<close>

theorem suggest_only_dataset_members:
  "(\<forall>items. suggest_entity dao es_suggest input_string = Inr items \<longrightarrow>
      (\<forall>s \<in> set items.
         \<exists>opt \<in> set (candidates (es_suggest (dao_index dao) input_string)).
           \<exists>src ds. opt_source opt = Some src \<and> src_datasets src = Some ds \<and>
             dao_dataset_id dao \<in> set ds \<and>
             src_entity src = Some (dto_entity (sg_entity s)) \<and>
             opt_text opt = Some (sg_text s))) \<and>
   (resp_entities (es_suggest (dao_index dao) input_string) \<noteq> Some [] \<longrightarrow>
      (\<exists>items. suggest_entity dao es_suggest input_string = Inr items))"
proof (intro conjI allI impI ballI)
  fix items s
  assume "suggest_entity dao es_suggest input_string = Inr items" and "s \<in> set items"
  then obtain opt where "opt \<in> set (candidates (es_suggest (dao_index dao) input_string))"
    and "option_try (dao_dataset_id dao) opt = Inr (Some s)"
    using suggest_entity_items by blast
  then show "\<exists>opt \<in> set (candidates (es_suggest (dao_index dao) input_string)).
           \<exists>src ds. opt_source opt = Some src \<and> src_datasets src = Some ds \<and>
             dao_dataset_id dao \<in> set ds \<and>
             src_entity src = Some (dto_entity (sg_entity s)) \<and>
             opt_text opt = Some (sg_text s)"
    using option_try_Some by blast
next
  assume "resp_entities (es_suggest (dao_index dao) input_string) \<noteq> Some []"
  then show "\<exists>items. suggest_entity dao es_suggest input_string = Inr items"
    by (rule suggest_entity_returns)
qed

lemma ex_suggest_Par:
  "suggest_entity ex_dao_a ex_engine ''Par'' = Inr [ex_suggestion ''Q1'' ''Paris'']"
  by (simp add: suggest_entity_def suggest_try_def option_step_cases option_try_def EntityDTO_def
      ex_dao_a_def ex_engine_def ex_option_def ex_source_def ex_suggestion_def
      repr_str_def escape_char_def Let_def)

theorem suggest_only_dataset_members_witness:
  "suggest_entity ex_dao_a ex_engine ''Par'' = Inr [ex_suggestion ''Q1'' ''Paris''] \<and>
   (\<exists>opt \<in> set (candidates (ex_engine ''entities'' ''Par'')).
      \<exists>src ds. opt_source opt = Some src \<and> src_datasets src = Some ds \<and> 1 \<in> set ds \<and>
        src_entity src = Some ''Q1'' \<and> opt_text opt = Some ''Paris'')"
proof -
  have m: "ex_suggestion ''Q1'' ''Paris'' \<in> set [ex_suggestion ''Q1'' ''Paris'']"
    by simp
  have "\<exists>opt \<in> set (candidates (ex_engine (dao_index ex_dao_a) ''Par'')).
      \<exists>src ds. opt_source opt = Some src \<and> src_datasets src = Some ds \<and>
        dao_dataset_id ex_dao_a \<in> set ds \<and>
        src_entity src = Some (dto_entity (sg_entity (ex_suggestion ''Q1'' ''Paris''))) \<and>
        opt_text opt = Some (sg_text (ex_suggestion ''Q1'' ''Paris''))"
    using suggest_only_dataset_members [of ex_dao_a ex_engine "''Par''"] ex_suggest_Par m
    by blast
  then have "\<exists>opt \<in> set (candidates (ex_engine ''entities'' ''Par'')).
      \<exists>src ds. opt_source opt = Some src \<and> src_datasets src = Some ds \<and> 1 \<in> set ds \<and>
        src_entity src = Some ''Q1'' \<and> opt_text opt = Some ''Paris''"
    by (simp add: ex_dao_a_def ex_suggestion_def)
  with ex_suggest_Par show ?thesis by simp
qed

text \<open>
  C4. The claim: \<open>suggest_entity\<close> returns only documents of the dataset, and a document
  without \<^verbatim>\<open>datasets\<close> is left out of the results without an error. The first half holds
  (above). A document without \<^verbatim>\<open>datasets\<close> is not skipped, though: the inner handler
  compares the \<^verbatim>\<open>str\<close> of the \<^verbatim>\<open>KeyError\<close>, which is the quoted key, with \<^verbatim>\<open>datasets\<close>, raises
  the error again, and the loop ends. For the dataset 1 and the options \<^verbatim>\<open>Q1\<close> (datasets
  1, 2), \<^verbatim>\<open>Q2\<close> (2), \<^verbatim>\<open>Q3\<close> (no \<^verbatim>\<open>datasets\<close>), \<^verbatim>\<open>Q4\<close> (1) the method returns \<^verbatim>\<open>Q1\<close> alone;
  without \<^verbatim>\<open>Q3\<close> in the answer it returns \<^verbatim>\<open>Q1\<close> and \<^verbatim>\<open>Q4\<close>.
\<close>

theorem suggest_stops_at_missing_datasets:
  "suggest_entity ex_dao_a ex_engine ''Par'' = Inr [ex_suggestion ''Q1'' ''Paris''] \<and>
   suggest_entity ex_dao_a ex_engine ''Pa'' =
     Inr [ex_suggestion ''Q1'' ''Paris'', ex_suggestion ''Q4'' ''Parla'']"
  by (simp add: suggest_entity_def suggest_try_def option_step_cases option_try_def EntityDTO_def
      ex_dao_a_def ex_engine_def ex_option_def ex_source_def ex_suggestion_def
      repr_str_def escape_char_def Let_def)

text \<open>
  C6. When the answer of the engine has no key \<^verbatim>\<open>entities\<close>, or its first entry has no
  \<^verbatim>\<open>options\<close> or an empty list of them, \<open>suggest_entity\<close> returns the empty list.
\<close>

theorem suggest_no_match_entry:
  assumes "resp_entities (es_suggest (dao_index dao) input_string) = None \<or>
           (\<exists>first others.
              resp_entities (es_suggest (dao_index dao) input_string) = Some (first # others) \<and>
              (entry_options first = None \<or> entry_options first = Some []))"
  shows "suggest_entity dao es_suggest input_string = Inr []"
  using assms
  by (auto simp add: suggest_entity_def suggest_try_def)

theorem suggest_no_match_entry_witness:
  "suggest_entity ex_dao_a ex_engine ''Zz'' = Inr [] \<and>
   suggest_entity ex_dao_a ex_engine ''Q'' = Inr []"
proof -
  have z: "resp_entities (ex_engine (dao_index ex_dao_a) ''Zz'') = None \<or>
           (\<exists>first others.
              resp_entities (ex_engine (dao_index ex_dao_a) ''Zz'') = Some (first # others) \<and>
              (entry_options first = None \<or> entry_options first = Some []))"
    by (simp add: ex_engine_def)
  have q: "resp_entities (ex_engine (dao_index ex_dao_a) ''Q'') = None \<or>
           (\<exists>first others.
              resp_entities (ex_engine (dao_index ex_dao_a) ''Q'') = Some (first # others) \<and>
              (entry_options first = None \<or> entry_options first = Some []))"
    by (simp add: ex_engine_def)
  show ?thesis
    using suggest_no_match_entry [where es_suggest = ex_engine and dao = ex_dao_a
        and input_string = "''Zz''", OF z]
      suggest_no_match_entry [where es_suggest = ex_engine and dao = ex_dao_a
        and input_string = "''Q''", OF q]
    by simp
qed

subsection \<open>The result on options that are complete\<close>

lemma option_try_complete:
  assumes "has_datasets opt" and "in_dataset d opt \<longrightarrow> suggestion_of opt \<noteq> None"
  shows "option_try d opt = Inr (if in_dataset d opt then suggestion_of opt else None)"
  using assms
  by (auto simp add: option_try_def EntityDTO_def has_datasets_def in_dataset_def
      suggestion_of_def split: option.splits)

lemma option_try_incomplete:
  assumes "opt_source opt = None \<or> (in_dataset d opt \<and> suggestion_of opt = None)"
  shows "\<exists>key. key \<noteq> ''datasets'' \<and> option_try d opt = Inl (Py (KeyError (JStr key)))"
  using assms
  by (auto simp add: option_try_def EntityDTO_def in_dataset_def suggestion_of_def
      split: option.splits)

lemma options_loop_complete:
  assumes "\<forall>opt \<in> set opts. has_datasets opt \<and> (in_dataset d opt \<longrightarrow> suggestion_of opt \<noteq> None)"
  shows "options_loop d opts acc =
           (acc @ List.map_filter suggestion_of (filter (in_dataset d) opts), None)"
  using assms
proof (induction opts arbitrary: acc)
  case Nil
  then show ?case by (simp add:)
next
  case (Cons opt opts)
  then have t: "option_try d opt = Inr (if in_dataset d opt then suggestion_of opt else None)"
    by (simp add: option_try_complete)
  show ?case
  proof (cases "in_dataset d opt")
    case True
    with Cons.prems obtain item where i: "suggestion_of opt = Some item" by auto
    with t True Cons show ?thesis
      by (simp add: option_step_cases)
  next
    case False
    with t Cons show ?thesis
      by (simp add: option_step_cases)
  qed
qed

text \<open>
  C9. When every option before one is processed without an exception (its source has
  \<^verbatim>\<open>datasets\<close>, and all that an item needs when the dataset is among them) and that one
  raises a \<^verbatim>\<open>KeyError\<close> for a key other than \<^verbatim>\<open>datasets\<close> (it has no \<^verbatim>\<open>_source\<close>, or it is
  of the dataset and lacks a field of the DTO or its \<^verbatim>\<open>text\<close>), \<open>suggest_entity\<close> raises
  nothing and returns the items of the options of the dataset before it, in their
  order.
\<close>

theorem suggest_partial_on_missing_key:
  assumes "resp_entities (es_suggest (dao_index dao) input_string) = Some (first # others)"
      and "entry_options first = Some (before @ bad # rest)"
      and "\<forall>opt \<in> set before.
             has_datasets opt \<and> (in_dataset (dao_dataset_id dao) opt \<longrightarrow> suggestion_of opt \<noteq> None)"
      and "opt_source bad = None \<or>
           (in_dataset (dao_dataset_id dao) bad \<and> suggestion_of bad = None)"
  shows "suggest_entity dao es_suggest input_string =
           Inr (List.map_filter suggestion_of (filter (in_dataset (dao_dataset_id dao)) before))"
proof -
  obtain key where k: "option_try (dao_dataset_id dao) bad = Inl (Py (KeyError (JStr key)))"
    using option_try_incomplete [OF assms(4)] by blast
  have "options_loop (dao_dataset_id dao) before [] =
          (List.map_filter suggestion_of (filter (in_dataset (dao_dataset_id dao)) before), None)"
    using options_loop_complete [OF assms(3), of "[]"] by simp
  then have "options_loop (dao_dataset_id dao) (before @ bad # rest) [] =
          (List.map_filter suggestion_of (filter (in_dataset (dao_dataset_id dao)) before),
           Some (Py (KeyError (JStr key))))"
    using options_loop_append option_step_KeyError [OF k] by simp
  then have "suggest_try (dao_dataset_id dao) (es_suggest (dao_index dao) input_string) =
          (List.map_filter suggestion_of (filter (in_dataset (dao_dataset_id dao)) before),
           Some (Py (KeyError (JStr key))))"
    using assms(1,2) by (simp add: suggest_try_def)
  then show ?thesis
    by (simp add: suggest_entity_def repr_str_not_entities)
qed

theorem suggest_partial_on_missing_key_witness:
  "suggest_entity ex_dao_a ex_engine ''Ly'' =
     Inr [ex_suggestion ''Q5'' ''Lyon'', ex_suggestion ''Q9'' ''Lynn'']"
proof -
  let ?before = "[ex_option ''Q5'' ''Lyon'' (Some [1]), ex_option ''Q8'' ''Lyme'' (Some [2]),
                  ex_option ''Q9'' ''Lynn'' (Some [3, 1])]"
  let ?bad = "\<lparr>opt_text = None, opt_source = Some (ex_source ''Q6'' ''Lyss'' (Some [1]))\<rparr>"
  let ?rest = "[ex_option ''Q7'' ''Lydd'' (Some [1])]"
  have r: "resp_entities (ex_engine (dao_index ex_dao_a) ''Ly'') =
      Some (\<lparr>entry_options = Some (?before @ ?bad # ?rest)\<rparr> # [])"
    by (simp add: ex_engine_def)
  have o: "entry_options \<lparr>entry_options = Some (?before @ ?bad # ?rest)\<rparr> =
      Some (?before @ ?bad # ?rest)"
    by simp
  have b: "\<forall>opt \<in> set ?before.
             has_datasets opt \<and> (in_dataset (dao_dataset_id ex_dao_a) opt \<longrightarrow> suggestion_of opt \<noteq> None)"
    by (simp add: has_datasets_def in_dataset_def suggestion_of_def ex_option_def ex_source_def)
  have k: "opt_source ?bad = None \<or>
           (in_dataset (dao_dataset_id ex_dao_a) ?bad \<and> suggestion_of ?bad = None)"
    by (simp add: in_dataset_def suggestion_of_def ex_source_def ex_dao_a_def)
  have e: "List.map_filter suggestion_of (filter (in_dataset (dao_dataset_id ex_dao_a)) ?before) =
      [ex_suggestion ''Q5'' ''Lyon'', ex_suggestion ''Q9'' ''Lynn'']"
    by (simp add: in_dataset_def suggestion_of_def ex_option_def
        ex_source_def ex_suggestion_def ex_dao_a_def)
  show ?thesis
    using suggest_partial_on_missing_key [where es_suggest = ex_engine and dao = ex_dao_a
        and input_string = "''Ly''" and before = ?before and bad = ?bad and rest = ?rest,
        OF r o b k]
    unfolding e .
qed

text \<open>The same happens at an option whose source has no \<^verbatim>\<open>datasets\<close>: the options after
  it are not looked at.\<close>

lemma missing_datasets_ends_loop:
  assumes "resp_entities (es_suggest (dao_index dao) input_string) = Some (first # others)"
      and "entry_options first = Some (before @ bad # rest)"
      and "\<forall>opt \<in> set before.
             has_datasets opt \<and> (in_dataset (dao_dataset_id dao) opt \<longrightarrow> suggestion_of opt \<noteq> None)"
      and "opt_source bad = Some src" and "src_datasets src = None"
  shows "suggest_entity dao es_suggest input_string =
           Inr (List.map_filter suggestion_of (filter (in_dataset (dao_dataset_id dao)) before))"
proof -
  have "option_try (dao_dataset_id dao) bad = Inl (Py (KeyError (JStr ''datasets'')))"
    using assms(4,5) by (simp add: option_try_def)
  moreover have "options_loop (dao_dataset_id dao) before [] =
          (List.map_filter suggestion_of (filter (in_dataset (dao_dataset_id dao)) before), None)"
    using options_loop_complete [OF assms(3), of "[]"] by simp
  ultimately have "options_loop (dao_dataset_id dao) (before @ bad # rest) [] =
          (List.map_filter suggestion_of (filter (in_dataset (dao_dataset_id dao)) before),
           Some (Py (KeyError (JStr ''datasets''))))"
    using options_loop_append by (simp add: option_step_cases)
  then have "suggest_try (dao_dataset_id dao) (es_suggest (dao_index dao) input_string) =
          (List.map_filter suggestion_of (filter (in_dataset (dao_dataset_id dao)) before),
           Some (Py (KeyError (JStr ''datasets''))))"
    using assms(1,2) by (simp add: suggest_try_def)
  then show ?thesis
    by (simp add: suggest_entity_def repr_str_not_entities)
qed

end
